theory Spec2Isabelle
  imports Complex_Main "HOL-Library.Monad_Syntax"
begin

section \<open>Data model (prisma schema)\<close>

text \<open>
  Primary keys are opaque cuid strings in the store; they are modelled as natural
  numbers drawn from a counter. Every \<open>Decimal\<close> column and every JavaScript number
  is modelled as an exact rational, so the arithmetic below is the arithmetic the
  handlers write down, without binary floating-point error.
\<close>

type_synonym ident = nat

datatype side = BUY | SELL
datatype orderKind = LIMIT | MARKET
datatype orderStatus = OPEN | FILLED | CANCELLED
datatype positionType = YES | NO

record user =
  balance :: rat
  isAdmin :: bool

record market =
  volume :: rat
  isResolved :: bool
  resolvedOutcomeId :: "ident option"

record outcome =
  outcome_id :: ident
  outcome_marketId :: ident
  probability :: rat
  outcome_isResolved :: bool

record order =
  order_id :: ident
  order_userId :: ident
  order_marketId :: ident
  order_outcomeId :: ident
  order_type :: side
  orderType :: orderKind
  amount :: rat
  price :: rat
  filled :: rat
  status :: orderStatus

record trade =
  trade_userId :: ident
  trade_marketId :: ident
  trade_outcomeId :: ident
  trade_amount :: rat
  trade_price :: rat
  trade_type :: side

record userOutcome =
  holding_id :: ident
  holding_userId :: ident
  holding_outcomeId :: ident
  quantity :: rat
  avgPrice :: rat

text \<open>
  \<open>transaction_metadata\<close> holds the \<open>profitLoss\<close> number that the handler serialises
  as \<open>JSON.stringify({ profitLoss })\<close>; \<open>None\<close> is a row written without metadata.
\<close>

record transaction =
  transaction_userId :: ident
  transaction_amount :: rat
  transaction_type :: string
  transaction_metadata :: "rat option"

text \<open>
  The store. Tables that are only read by primary key are maps; tables that are
  scanned (\<open>findMany\<close>, \<open>findFirst\<close>) are lists in insertion order.
\<close>

record db =
  users :: "ident \<rightharpoonup> user"
  markets :: "ident \<rightharpoonup> market"
  outcomes :: "outcome list"
  orders :: "order list"
  trades :: "trade list"
  holdings :: "userOutcome list"
  transactions :: "transaction list"
  nextId :: ident

text \<open>
  The failures the handlers return, each with the HTTP status and message of the source:
  \<open>Unauthorized\<close> 401 (no session), \<open>UserNotFound\<close> 404, \<open>ValidationFailed\<close> 400 (zod),
  \<open>MarketNotFound\<close> 404, \<open>MarketResolved\<close> 400 ("Cannot trade on a resolved market",
  "Cannot place orders on a resolved market", "Cannot cancel orders on resolved markets"),
  \<open>InvalidOutcome\<close> 400 ("Invalid outcome ID"), \<open>InsufficientBalance\<close> 400,
  \<open>InsufficientShares\<close> 400, \<open>PriceRequired\<close> 400, \<open>OrderNotFound\<close> 404,
  \<open>Forbidden\<close> 403, \<open>AlreadyClosed\<close> 400 ("Only open orders can be cancelled"),
  \<open>AlreadyResolved\<close> 400 ("This market is already resolved"),
  \<open>OutcomeRequired\<close> 400 ("Resolved outcome ID is required"),
  \<open>InternalError\<close> 500 (anything thrown inside the handler, the transaction rolled back).
\<close>

datatype error =
    Unauthorized | UserNotFound | ValidationFailed | MarketNotFound | MarketResolved
  | InvalidOutcome | InsufficientBalance | InsufficientShares | PriceRequired
  | OrderNotFound | Forbidden | AlreadyClosed | AlreadyResolved | OutcomeRequired
  | InternalError

section \<open>Store operations used inside transactions\<close>

text \<open>
  Each operation returns \<open>None\<close> where the Prisma call throws (no row with that key,
  a unique constraint violated); a throw aborts the enclosing transaction.
\<close>

definition user_increment_balance :: "ident \<Rightarrow> rat \<Rightarrow> db \<Rightarrow> db option" where
  "user_increment_balance uid delta s =
     (case users s uid of
        None \<Rightarrow> None
      | Some u \<Rightarrow> Some (s\<lparr>users := (users s)(uid \<mapsto> u\<lparr>balance := balance u + delta\<rparr>)\<rparr>))"

definition market_increment_volume :: "ident \<Rightarrow> rat \<Rightarrow> db \<Rightarrow> db option" where
  "market_increment_volume mid delta s =
     (case markets s mid of
        None \<Rightarrow> None
      | Some m \<Rightarrow> Some (s\<lparr>markets := (markets s)(mid \<mapsto> m\<lparr>volume := volume m + delta\<rparr>)\<rparr>))"

definition outcome_findUnique :: "ident \<Rightarrow> db \<Rightarrow> outcome option" where
  "outcome_findUnique oid s = find (\<lambda>oc. outcome_id oc = oid) (outcomes s)"

definition outcome_findFirst :: "ident \<Rightarrow> ident \<Rightarrow> db \<Rightarrow> outcome option" where
  "outcome_findFirst oid mid s =
     find (\<lambda>oc. outcome_id oc = oid \<and> outcome_marketId oc = mid) (outcomes s)"

definition outcome_findMany :: "ident \<Rightarrow> db \<Rightarrow> outcome list" where
  "outcome_findMany mid s = filter (\<lambda>oc. outcome_marketId oc = mid) (outcomes s)"

definition outcome_update :: "ident \<Rightarrow> (outcome \<Rightarrow> outcome) \<Rightarrow> db \<Rightarrow> db option" where
  "outcome_update oid f s =
     (if list_ex (\<lambda>oc. outcome_id oc = oid) (outcomes s)
      then Some (s\<lparr>outcomes := map (\<lambda>oc. if outcome_id oc = oid then f oc else oc) (outcomes s)\<rparr>)
      else None)"

definition userOutcome_findFirst :: "ident \<Rightarrow> ident \<Rightarrow> db \<Rightarrow> userOutcome option" where
  "userOutcome_findFirst uid oid s =
     find (\<lambda>h. holding_userId h = uid \<and> holding_outcomeId h = oid) (holdings s)"

definition userOutcome_update :: "ident \<Rightarrow> (userOutcome \<Rightarrow> userOutcome) \<Rightarrow> db \<Rightarrow> db option" where
  "userOutcome_update hid f s =
     (if list_ex (\<lambda>h. holding_id h = hid) (holdings s)
      then Some (s\<lparr>holdings := map (\<lambda>h. if holding_id h = hid then f h else h) (holdings s)\<rparr>)
      else None)"

text \<open>The schema declares \<open>@@unique([userId, outcomeId])\<close>: a second row for the pair throws.\<close>

definition userOutcome_create :: "ident \<Rightarrow> ident \<Rightarrow> rat \<Rightarrow> rat \<Rightarrow> db \<Rightarrow> db option" where
  "userOutcome_create uid oid q p s =
     (if list_ex (\<lambda>h. holding_userId h = uid \<and> holding_outcomeId h = oid) (holdings s)
      then None
      else Some (s\<lparr>holdings := holdings s @
                     [\<lparr>holding_id = nextId s, holding_userId = uid, holding_outcomeId = oid,
                       quantity = q, avgPrice = p\<rparr>],
                   nextId := Suc (nextId s)\<rparr>))"

definition userOutcome_delete :: "ident \<Rightarrow> db \<Rightarrow> db option" where
  "userOutcome_delete hid s =
     (if list_ex (\<lambda>h. holding_id h = hid) (holdings s)
      then Some (s\<lparr>holdings := filter (\<lambda>h. holding_id h \<noteq> hid) (holdings s)\<rparr>)
      else None)"

definition order_update :: "ident \<Rightarrow> (order \<Rightarrow> order) \<Rightarrow> db \<Rightarrow> db option" where
  "order_update oid f s =
     (if list_ex (\<lambda>oc. order_id oc = oid) (orders s)
      then Some (s\<lparr>orders := map (\<lambda>oc. if order_id oc = oid then f oc else oc) (orders s)\<rparr>)
      else None)"

definition trade_create :: "trade \<Rightarrow> db \<Rightarrow> db" where
  "trade_create t s = s\<lparr>trades := trades s @ [t]\<rparr>"

definition transaction_create :: "transaction \<Rightarrow> db \<Rightarrow> db" where
  "transaction_create t s = s\<lparr>transactions := transactions s @ [t]\<rparr>"

section \<open>Pricing engine\<close>

text \<open>
  \<open>parseFloat(x.toFixed(4))\<close>: the nearest multiple of \<open>1/10000\<close>, the larger one on a
  tie, computed on the magnitude with the sign put back (ECMAScript \<open>Number.prototype.toFixed\<close>).
\<close>

definition toFixed4 :: "rat \<Rightarrow> rat" where
  "toFixed4 x =
     (if x < 0 then - (of_int \<lfloor>- x * 10000 + 1 / 2\<rfloor> / 10000)
      else of_int \<lfloor>x * 10000 + 1 / 2\<rfloor> / 10000)"

text \<open>
  The impact computation that the trade handler writes inline and the order handler has
  in \<open>updateProbabilities\<close>, up to and including the rounding. \<open>marketVolume\<close> is the
  number after \<open>|| 1\<close> has been applied by the caller.
\<close>

definition volumeOr1 :: "rat \<Rightarrow> rat" where
  "volumeOr1 v = (if v = 0 then 1 else v)"

definition impactFactor :: "rat \<Rightarrow> rat \<Rightarrow> rat" where
  "impactFactor tradeAmount marketVolume =
     (let volumeRatio = tradeAmount / marketVolume in 1 / 1000 * volumeRatio * 100)"

definition newProbability :: "side \<Rightarrow> rat \<Rightarrow> rat \<Rightarrow> rat \<Rightarrow> rat" where
  "newProbability type currentProbability tradeAmount marketVolume =
     (let f = impactFactor tradeAmount marketVolume;
          p = (case type of
                 BUY \<Rightarrow> currentProbability + f * (1 - currentProbability)
               | SELL \<Rightarrow> currentProbability - f * currentProbability)
      in toFixed4 (max (1 / 100) (min (99 / 100) p)))"



text \<open>
  The redistribution block: when the market has more than one outcome, every other
  outcome of the market is multiplied by \<open>(1 - newProbability) / totalOtherProbability\<close>
  and rounded; then the traded outcome is written. A zero \<open>totalOtherProbability\<close>
  makes the scale factor non-finite in JavaScript, which the \<open>Decimal\<close> column cannot
  store: the write throws.
\<close>

definition otherOutcomes :: "ident \<Rightarrow> ident \<Rightarrow> db \<Rightarrow> outcome list" where
  "otherOutcomes marketId outcomeId s =
     filter (\<lambda>oc. outcome_id oc \<noteq> outcomeId) (outcome_findMany marketId s)"

definition totalOtherProbability :: "ident \<Rightarrow> ident \<Rightarrow> db \<Rightarrow> rat" where
  "totalOtherProbability marketId outcomeId s =
     sum_list (map probability (otherOutcomes marketId outcomeId s))"

definition scaleFactor :: "rat \<Rightarrow> rat \<Rightarrow> rat" where
  "scaleFactor newProb totalOther = (1 - newProb) / totalOther"

definition redistribute :: "ident \<Rightarrow> ident \<Rightarrow> rat \<Rightarrow> db \<Rightarrow> db option" where
  "redistribute marketId outcomeId newProb s =
     do {
       s1 \<leftarrow>
         (if length (outcome_findMany marketId s) > 1 then
            (if totalOtherProbability marketId outcomeId s = 0
                \<and> otherOutcomes marketId outcomeId s \<noteq> [] then None
             else
               Some (s\<lparr>outcomes :=
                 map (\<lambda>oc. if outcome_marketId oc = marketId \<and> outcome_id oc \<noteq> outcomeId
                           then oc\<lparr>probability := toFixed4 (probability oc *
                                  scaleFactor newProb (totalOtherProbability marketId outcomeId s))\<rparr>
                           else oc) (outcomes s)\<rparr>))
          else Some s);
       outcome_update outcomeId (\<lambda>oc. oc\<lparr>probability := newProb\<rparr>) s1
     }"

text \<open>The sum of the probabilities of a market's outcomes.\<close>

definition probabilitySum :: "ident \<Rightarrow> db \<Rightarrow> rat" where
  "probabilitySum marketId s = sum_list (map probability (outcome_findMany marketId s))"

section \<open>Immediate trade execution (POST /api/trades)\<close>

record tradeRequest =
  req_marketId :: ident
  req_outcomeId :: ident
  req_amount :: rat
  req_type :: side
  req_isSharesMode :: bool

text \<open>
  \<open>sharesToSell\<close> and \<open>sellAmount\<close> of the SELL branch, and \<open>sharesPurchased\<close> of the BUY
  branch. A division by a zero probability gives \<open>Infinity\<close> in JavaScript: the SELL
  check \<open>quantity < sharesToSell\<close> then throws, and the BUY write of a non-finite
  quantity throws; both are \<open>None\<close> here.
\<close>

definition sharesToSell :: "bool \<Rightarrow> rat \<Rightarrow> rat \<Rightarrow> rat option" where
  "sharesToSell isSharesMode amt p =
     (if isSharesMode then Some amt else if p = 0 then None else Some (amt / p))"

definition sellAmount :: "bool \<Rightarrow> rat \<Rightarrow> rat \<Rightarrow> rat" where
  "sellAmount isSharesMode amt p = (if isSharesMode then amt * p else amt)"

definition sharesPurchased :: "rat \<Rightarrow> rat \<Rightarrow> rat option" where
  "sharesPurchased amt p = (if p = 0 then None else Some (amt / p))"

text \<open>The SELL pre-check at the head of the transaction: the holding that will be sold from.\<close>

definition checkSell :: "ident \<Rightarrow> outcome \<Rightarrow> tradeRequest \<Rightarrow> db \<Rightarrow> userOutcome option" where
  "checkSell uid outcome req s =
     (case outcome_findUnique (req_outcomeId req) s of
        None \<Rightarrow> None
      | Some currentOutcome \<Rightarrow>
          (case sharesToSell (req_isSharesMode req) (req_amount req) (probability outcome) of
             None \<Rightarrow> None
           | Some shares \<Rightarrow>
               (case userOutcome_findFirst uid (req_outcomeId req) s of
                  None \<Rightarrow> None
                | Some userHolding \<Rightarrow>
                    if quantity userHolding < shares then None else Some userHolding)))"

text \<open>The BUY branch on holdings: weighted average on an existing row, else a new row.\<close>

definition buyHolding :: "ident \<Rightarrow> ident \<Rightarrow> rat \<Rightarrow> rat \<Rightarrow> rat \<Rightarrow> db \<Rightarrow> db option" where
  "buyHolding uid outcomeId shares cost avgIfNew s =
     (case userOutcome_findFirst uid outcomeId s of
        Some existingHolding \<Rightarrow>
          (let currentQuantity = quantity existingHolding;
               currentValue = currentQuantity * avgPrice existingHolding;
               newQuantity = currentQuantity + shares;
               newValue = currentValue + cost
           in if newQuantity = 0 then None
              else userOutcome_update (holding_id existingHolding)
                     (\<lambda>h. h\<lparr>quantity := newQuantity, avgPrice := newValue / newQuantity\<rparr>) s)
      | None \<Rightarrow> userOutcome_create uid outcomeId shares avgIfNew s)"

definition tradeTransaction :: "side \<Rightarrow> ident \<Rightarrow> rat \<Rightarrow> rat \<Rightarrow> transaction" where
  "tradeTransaction type uid transactionAmount profitLoss =
     \<lparr>transaction_userId = uid, transaction_amount = transactionAmount,
      transaction_type = (if type = SELL then ''TRADE_SELL'' else ''TRADE_BUY''),
      transaction_metadata = (if type = SELL \<and> profitLoss \<noteq> 0 then Some profitLoss else None)\<rparr>"

text \<open>
  The holdings block of the transaction: the new store and \<open>profitLoss\<close>. \<open>userHolding\<close>
  is the row the SELL pre-check read (\<open>None\<close> on a BUY).
\<close>

definition tradeHoldings ::
  "ident \<Rightarrow> outcome \<Rightarrow> 'a tradeRequest_scheme \<Rightarrow> userOutcome option \<Rightarrow> db \<Rightarrow> (db \<times> rat) option" where
  "tradeHoldings uid outcome req userHolding s =
     (let amt = req_amount req; p = probability outcome in
      if req_type req = BUY then
        do { shares \<leftarrow> sharesPurchased amt p;
             s' \<leftarrow> buyHolding uid (req_outcomeId req) shares amt p s;
             Some (s', 0) }
      else
        do { shares \<leftarrow> sharesToSell (req_isSharesMode req) amt p;
             h \<leftarrow> userHolding;
             s' \<leftarrow> userOutcome_update (holding_id h)
                     (\<lambda>h. h\<lparr>quantity := quantity h - shares\<rparr>) s;
             Some (s', sellAmount (req_isSharesMode req) amt p - shares * avgPrice h) })"

text \<open>The balance update and the transaction row: \<open>delta\<close> is the signed change of the balance.\<close>

definition tradeLedger :: "ident \<Rightarrow> side \<Rightarrow> rat \<Rightarrow> rat \<Rightarrow> rat \<Rightarrow> db \<Rightarrow> db option" where
  "tradeLedger uid type delta transactionAmount profitLoss s =
     do {
       s' \<leftarrow> user_increment_balance uid delta s;
       Some (transaction_create (tradeTransaction type uid transactionAmount profitLoss) s')
     }"

text \<open>
  The end of the transaction: the volume is incremented by \<open>amount\<close>, then the impact is
  computed from \<open>market\<close> and \<open>outcome\<close>, the rows the handler read before the transaction
  began, and the probabilities are written.
\<close>

definition tradeImpact :: "market \<Rightarrow> outcome \<Rightarrow> 'a tradeRequest_scheme \<Rightarrow> db \<Rightarrow> db option" where
  "tradeImpact market outcome req s =
     do {
       s' \<leftarrow> market_increment_volume (req_marketId req) (req_amount req) s;
       redistribute (req_marketId req) (req_outcomeId req)
         (newProbability (req_type req) (probability outcome) (req_amount req)
            (volumeOr1 (volume market))) s'
     }"

definition tradeRow :: "ident \<Rightarrow> outcome \<Rightarrow> 'a tradeRequest_scheme \<Rightarrow> trade" where
  "tradeRow uid outcome req =
     \<lparr>trade_userId = uid, trade_marketId = req_marketId req, trade_outcomeId = req_outcomeId req,
      trade_amount = req_amount req, trade_price = probability outcome,
      trade_type = req_type req\<rparr>"

text \<open>The transaction body of \<open>src/app/api/trades/route.ts\<close>.\<close>

definition tradeTx :: "ident \<Rightarrow> market \<Rightarrow> outcome \<Rightarrow> tradeRequest \<Rightarrow> db \<Rightarrow> db option" where
  "tradeTx uid market outcome req s0 =
     (let amt = req_amount req; type = req_type req; p = probability outcome;
          proceeds = (if type = BUY then - amt else sellAmount (req_isSharesMode req) amt p)
      in do {
        userHolding \<leftarrow> (if type = SELL then map_option Some (checkSell uid outcome req s0)
                        else Some None);
        (s2, profitLoss) \<leftarrow>
          tradeHoldings uid outcome req userHolding (trade_create (tradeRow uid outcome req) s0);
        s3 \<leftarrow> tradeLedger uid type proceeds proceeds profitLoss s2;
        tradeImpact market outcome req s3
      })"

definition trades_POST :: "ident option \<Rightarrow> tradeRequest \<Rightarrow> db \<Rightarrow> (error + unit) \<times> db" where
  "trades_POST session req s =
     (case session of
        None \<Rightarrow> (Inl Unauthorized, s)
      | Some uid \<Rightarrow>
     (case users s uid of
        None \<Rightarrow> (Inl UserNotFound, s)
      | Some user \<Rightarrow>
     if \<not> req_amount req > 0 then (Inl ValidationFailed, s) else
     (case markets s (req_marketId req) of
        None \<Rightarrow> (Inl MarketNotFound, s)
      | Some market \<Rightarrow>
     if isResolved market then (Inl MarketResolved, s) else
     (case outcome_findFirst (req_outcomeId req) (req_marketId req) s of
        None \<Rightarrow> (Inl InvalidOutcome, s)
      | Some outcome \<Rightarrow>
     if req_type req = BUY \<and> balance user < req_amount req then (Inl InsufficientBalance, s) else
     (case tradeTx uid market outcome req s of
        None \<Rightarrow> (Inl InternalError, s)
      | Some s' \<Rightarrow> (Inr (), s'))))))"

section \<open>Market creation (POST /api/markets)\<close>

text \<open>
  Of the request only the number of outcomes matters here; the zod schema asks for at
  least two. Titles, description, category, end date and rules are checked by the same
  schema and stored in columns no engine reads; \<open>wellFormed\<close> stands for those checks.
\<close>

fun createOutcomes :: "ident \<Rightarrow> rat \<Rightarrow> nat \<Rightarrow> db \<Rightarrow> db" where
  "createOutcomes marketId initialProbability 0 s = s"
| "createOutcomes marketId initialProbability (Suc n) s =
     createOutcomes marketId initialProbability n
       (s\<lparr>outcomes := outcomes s @
            [\<lparr>outcome_id = nextId s, outcome_marketId = marketId,
              probability = initialProbability, outcome_isResolved = False\<rparr>],
          nextId := Suc (nextId s)\<rparr>)"

definition markets_POST :: "ident option \<Rightarrow> bool \<Rightarrow> nat \<Rightarrow> db \<Rightarrow> (error + ident) \<times> db" where
  "markets_POST session wellFormed nOutcomes s =
     (case session of
        None \<Rightarrow> (Inl Unauthorized, s)
      | Some uid \<Rightarrow>
     (case users s uid of
        None \<Rightarrow> (Inl UserNotFound, s)
      | Some user \<Rightarrow>
     if \<not> isAdmin user then (Inl Forbidden, s) else
     if \<not> (wellFormed \<and> nOutcomes \<ge> 2) then (Inl ValidationFailed, s) else
     (let newMarketId = nextId s;
          s1 = s\<lparr>markets := (markets s)(newMarketId \<mapsto>
                    \<lparr>volume = 0, isResolved = False, resolvedOutcomeId = None\<rparr>),
                 nextId := Suc (nextId s)\<rparr>;
          initialProbability = 1 / of_nat nOutcomes
      in (Inr newMarketId, createOutcomes newMarketId initialProbability nOutcomes s1))))"

section \<open>Order placement (POST /api/orders)\<close>

record orderRequest =
  oreq_marketId :: ident
  oreq_outcomeId :: ident
  oreq_type :: side
  oreq_orderType :: orderKind
  oreq_amount :: rat
  oreq_price :: "rat option"

definition opposite :: "side \<Rightarrow> side" where
  "opposite type = (if type = BUY then SELL else BUY)"

text \<open>Helper \<open>updateHoldings\<close>. On SELL a missing holding is a read of \<open>null.id\<close>, which throws.\<close>

definition updateHoldings :: "ident \<Rightarrow> ident \<Rightarrow> rat \<Rightarrow> rat \<Rightarrow> side \<Rightarrow> db \<Rightarrow> db option" where
  "updateHoldings userId outcomeId amt prc type s =
     (case type of
        BUY \<Rightarrow>
          (case userOutcome_findFirst userId outcomeId s of
             Some existingHolding \<Rightarrow>
               (let currentQuantity = quantity existingHolding;
                    currentValue = currentQuantity * avgPrice existingHolding;
                    newValue = currentValue + amt * prc;
                    newQuantity = currentQuantity + amt
                in if newQuantity = 0 then None
                   else userOutcome_update (holding_id existingHolding)
                          (\<lambda>h. h\<lparr>quantity := newQuantity, avgPrice := newValue / newQuantity\<rparr>) s)
           | None \<Rightarrow> userOutcome_create userId outcomeId amt prc s)
      | SELL \<Rightarrow>
          (case userOutcome_findFirst userId outcomeId s of
             None \<Rightarrow> None
           | Some existingHolding \<Rightarrow>
               userOutcome_update (holding_id existingHolding)
                 (\<lambda>h. h\<lparr>quantity := quantity h - amt\<rparr>) s))"

definition recordTransaction :: "ident \<Rightarrow> rat \<Rightarrow> rat \<Rightarrow> db \<Rightarrow> db" where
  "recordTransaction userId amt sign s =
     transaction_create \<lparr>transaction_userId = userId, transaction_amount = amt * sign,
                         transaction_type = ''TRADE'', transaction_metadata = None\<rparr> s"

text \<open>Helper \<open>updateProbabilities\<close>: it reads the outcome and the market again, inside the transaction.\<close>

definition updateProbabilities :: "ident \<Rightarrow> ident \<Rightarrow> rat \<Rightarrow> side \<Rightarrow> db \<Rightarrow> db option" where
  "updateProbabilities marketId outcomeId amt type s =
     (case outcome_findUnique outcomeId s of
        None \<Rightarrow> None
      | Some outcome \<Rightarrow>
     (case markets s marketId of
        None \<Rightarrow> None
      | Some market \<Rightarrow>
          redistribute marketId outcomeId
            (newProbability type (probability outcome) amt (volumeOr1 (volume market))) s))"

text \<open>The loop body's holdings and balance updates for both parties, at the trade price.\<close>

definition settleFill :: "ident \<Rightarrow> ident \<Rightarrow> ident \<Rightarrow> side \<Rightarrow> rat \<Rightarrow> rat \<Rightarrow> db \<Rightarrow> db option" where
  "settleFill uid maker outcomeId type fillAmount tradePrice s =
     (if type = BUY then
        do { a \<leftarrow> updateHoldings uid outcomeId fillAmount tradePrice BUY s;
             b \<leftarrow> updateHoldings maker outcomeId fillAmount tradePrice SELL a;
             c \<leftarrow> user_increment_balance uid (- (fillAmount * tradePrice)) b;
             user_increment_balance maker (fillAmount * tradePrice) c }
      else
        do { a \<leftarrow> updateHoldings uid outcomeId fillAmount tradePrice SELL s;
             b \<leftarrow> updateHoldings maker outcomeId fillAmount tradePrice BUY a;
             c \<leftarrow> user_increment_balance uid (fillAmount * tradePrice) b;
             user_increment_balance maker (- (fillAmount * tradePrice)) c })"

definition fillTrades :: "ident \<Rightarrow> ident \<Rightarrow> ident \<Rightarrow> side \<Rightarrow> order \<Rightarrow> rat \<Rightarrow> trade list" where
  "fillTrades uid marketId outcomeId type matchingOrder fillAmount =
     [\<lparr>trade_userId = uid, trade_marketId = marketId, trade_outcomeId = outcomeId,
       trade_amount = fillAmount, trade_price = price matchingOrder, trade_type = type\<rparr>,
      \<lparr>trade_userId = order_userId matchingOrder, trade_marketId = marketId,
       trade_outcomeId = outcomeId, trade_amount = fillAmount,
       trade_price = price matchingOrder, trade_type = opposite type\<rparr>]"

text \<open>One pass of the matching loop's body, for a resting order with something left.\<close>

definition fillOrder :: "ident \<Rightarrow> ident \<Rightarrow> ident \<Rightarrow> side \<Rightarrow> order \<Rightarrow> rat \<Rightarrow> db \<Rightarrow> db option" where
  "fillOrder uid marketId outcomeId type matchingOrder fillAmount s =
     (let availableInMatchingOrder = amount matchingOrder - filled matchingOrder;
          tradePrice = price matchingOrder;
          maker = order_userId matchingOrder
      in do {
        s1 \<leftarrow> order_update (order_id matchingOrder)
                (\<lambda>r. r\<lparr>filled := filled r + fillAmount,
                        status := (if availableInMatchingOrder \<le> fillAmount then FILLED else OPEN)\<rparr>) s;
        s4 \<leftarrow> settleFill uid maker outcomeId type fillAmount tradePrice
                (s1\<lparr>trades := trades s1 @
                       fillTrades uid marketId outcomeId type matchingOrder fillAmount\<rparr>);
        s7 \<leftarrow> market_increment_volume marketId fillAmount
                (recordTransaction maker (fillAmount * tradePrice) (if type = BUY then 1 else - 1)
                  (recordTransaction uid (fillAmount * tradePrice) (if type = BUY then - 1 else 1) s4));
        updateProbabilities marketId outcomeId fillAmount type s7
      })"

text \<open>
  The \<open>for (const matchingOrder of matchingOrders)\<close> loop. The list is the snapshot read
  before the loop; the accumulator is \<open>(remainingAmount, filledAmount, matchedOrders)\<close>.
\<close>

fun matchLoop ::
  "ident \<Rightarrow> ident \<Rightarrow> ident \<Rightarrow> side \<Rightarrow> order list \<Rightarrow> rat \<Rightarrow> rat \<Rightarrow> ident list \<Rightarrow> db
     \<Rightarrow> (rat \<times> ident list \<times> db) option" where
  "matchLoop uid marketId outcomeId type [] remainingAmount filledAmount matchedOrders s =
     Some (filledAmount, matchedOrders, s)"
| "matchLoop uid marketId outcomeId type (matchingOrder # rest) remainingAmount filledAmount
     matchedOrders s =
     (if remainingAmount \<le> 0 then Some (filledAmount, matchedOrders, s)
      else
        (let availableInMatchingOrder = amount matchingOrder - filled matchingOrder in
         if availableInMatchingOrder \<le> 0
         then matchLoop uid marketId outcomeId type rest remainingAmount filledAmount
                matchedOrders s
         else
           (let fillAmount = min remainingAmount availableInMatchingOrder in
            case fillOrder uid marketId outcomeId type matchingOrder fillAmount s of
              None \<Rightarrow> None
            | Some s' \<Rightarrow>
                matchLoop uid marketId outcomeId type rest (remainingAmount - fillAmount)
                  (filledAmount + fillAmount) (matchedOrders @ [order_id matchingOrder]) s')))"

text \<open>
  \<open>findMany\<close> for the opposite side, \<open>orderBy price\<close> ascending for an incoming BUY and
  descending for an incoming SELL. The store leaves the order of equal prices open; the
  model keeps insertion order among them.
\<close>

definition matchingOrders :: "ident \<Rightarrow> ident \<Rightarrow> side \<Rightarrow> db \<Rightarrow> order list" where
  "matchingOrders marketId outcomeId type s =
     (let candidates = filter (\<lambda>r. order_marketId r = marketId \<and> order_outcomeId r = outcomeId
                                  \<and> order_type r = opposite type \<and> status r = OPEN) (orders s)
      in if type = BUY then sort_key price candidates
         else sort_key (\<lambda>r. - price r) candidates)"

record orderResult =
  res_order :: order
  res_matchedOrders :: "ident list"
  res_fullyFilled :: bool

definition orderTx :: "ident \<Rightarrow> orderRequest \<Rightarrow> rat \<Rightarrow> db \<Rightarrow> (orderResult \<times> db) option" where
  "orderTx uid req prc s0 =
     (let marketId = oreq_marketId req; outcomeId = oreq_outcomeId req;
          type = oreq_type req; amt = oreq_amount req;
          newOrder = \<lparr>order_id = nextId s0, order_userId = uid, order_marketId = marketId,
                     order_outcomeId = outcomeId, order_type = type,
                     orderType = oreq_orderType req, amount = amt, price = prc,
                     filled = 0, status = OPEN\<rparr>;
          s1 = s0\<lparr>orders := orders s0 @ [newOrder], nextId := Suc (nextId s0)\<rparr>
      in if oreq_orderType req = MARKET then
           do {
             (filledAmount, matchedOrders, s2) \<leftarrow>
               matchLoop uid marketId outcomeId type (matchingOrders marketId outcomeId type s1)
                 amt 0 [] s1;
             s3 \<leftarrow> order_update (order_id newOrder)
                     (\<lambda>r. r\<lparr>filled := filledAmount,
                             status := (if filledAmount \<ge> amt then FILLED else OPEN)\<rparr>) s2;
             Some (\<lparr>res_order = newOrder\<lparr>filled := filledAmount,
                                  status := (if filledAmount \<ge> amt then FILLED else OPEN)\<rparr>,
                    res_matchedOrders = matchedOrders,
                    res_fullyFilled = (filledAmount \<ge> amt)\<rparr>, s3)
           }
         else if type = BUY then
           do {
             s2 \<leftarrow> user_increment_balance uid (- amt) s1;
             Some (\<lparr>res_order = newOrder, res_matchedOrders = [], res_fullyFilled = False\<rparr>,
                   transaction_create \<lparr>transaction_userId = uid, transaction_amount = - amt,
                     transaction_type = ''ORDER_RESERVE'', transaction_metadata = None\<rparr> s2)
           }
         else Some (\<lparr>res_order = newOrder, res_matchedOrders = [], res_fullyFilled = False\<rparr>, s1))"

definition priceValid :: "rat option \<Rightarrow> bool" where
  "priceValid p = (case p of None \<Rightarrow> True | Some x \<Rightarrow> 1 / 100 \<le> x \<and> x \<le> 99 / 100)"

definition orders_POST :: "ident option \<Rightarrow> orderRequest \<Rightarrow> db \<Rightarrow> (error + orderResult) \<times> db" where
  "orders_POST session req s =
     (case session of
        None \<Rightarrow> (Inl Unauthorized, s)
      | Some uid \<Rightarrow>
     (case users s uid of
        None \<Rightarrow> (Inl UserNotFound, s)
      | Some user \<Rightarrow>
     if \<not> (oreq_amount req > 0 \<and> priceValid (oreq_price req)) then (Inl ValidationFailed, s) else
     (case markets s (oreq_marketId req) of
        None \<Rightarrow> (Inl MarketNotFound, s)
      | Some market \<Rightarrow>
     if isResolved market then (Inl MarketResolved, s) else
     (case outcome_findFirst (oreq_outcomeId req) (oreq_marketId req) s of
        None \<Rightarrow> (Inl InvalidOutcome, s)
      | Some outcome \<Rightarrow>
     if oreq_orderType req = LIMIT \<and> oreq_price req = None then (Inl PriceRequired, s) else
     if oreq_type req = BUY \<and> balance user < oreq_amount req then (Inl InsufficientBalance, s) else
     if oreq_type req = SELL \<and>
        (case userOutcome_findFirst uid (oreq_outcomeId req) s of
           None \<Rightarrow> True
         | Some userHolding \<Rightarrow> quantity userHolding < oreq_amount req)
     then (Inl InsufficientShares, s) else
     (let prc = (if oreq_orderType req = MARKET then probability outcome
                 else (case oreq_price req of Some x \<Rightarrow> x | None \<Rightarrow> 0))
      in case orderTx uid req prc s of
           None \<Rightarrow> (Inl InternalError, s)
         | Some (result, s') \<Rightarrow> (Inr result, s'))))))"

text \<open>
  The matching loop as the specification describes it, without the store: walking the
  sorted resting orders with the incoming order's remaining amount, each resting order
  with something left is filled with the smaller of the two remainders. The result
  pairs each matched resting order with its fill amount. It is compared with
  \<open>matchLoop\<close> above.
\<close>

fun fillPlan :: "rat \<Rightarrow> order list \<Rightarrow> (order \<times> rat) list" where
  "fillPlan remaining [] = []"
| "fillPlan remaining (r # rs) =
     (if remaining \<le> 0 then []
      else if amount r - filled r \<le> 0 then fillPlan remaining rs
      else (r, min remaining (amount r - filled r))
             # fillPlan (remaining - min remaining (amount r - filled r)) rs)"

text \<open>
  What a list of fills does to the order table, to the trade table and to a user's
  balance: the resting order's \<open>filled\<close> grows by the fill and it is FILLED when the fill
  covers what it had left; two trade rows per fill; the taker pays and the maker
  receives \<open>fillAmount * price\<close> on an incoming BUY, and the other way round on a SELL.
\<close>

definition applyFill :: "order \<Rightarrow> rat \<Rightarrow> order list \<Rightarrow> order list" where
  "applyFill r f rows =
     map (\<lambda>x. if order_id x = order_id r
              then x\<lparr>filled := filled x + f,
                     status := (if amount r - filled r \<le> f then FILLED else OPEN)\<rparr>
              else x) rows"

fun applyFills :: "(order \<times> rat) list \<Rightarrow> order list \<Rightarrow> order list" where
  "applyFills [] rows = rows"
| "applyFills ((r, f) # plan) rows = applyFills plan (applyFill r f rows)"

definition fillDelta :: "side \<Rightarrow> ident \<Rightarrow> order \<Rightarrow> rat \<Rightarrow> ident \<Rightarrow> rat" where
  "fillDelta type uid r f x =
     (if type = BUY
      then (if x = uid then - (f * price r) else 0) + (if x = order_userId r then f * price r else 0)
      else (if x = uid then f * price r else 0) + (if x = order_userId r then - (f * price r) else 0))"

definition planDelta :: "side \<Rightarrow> ident \<Rightarrow> (order \<times> rat) list \<Rightarrow> ident \<Rightarrow> rat" where
  "planDelta type uid plan x = sum_list (map (\<lambda>(r, f). fillDelta type uid r f x) plan)"

definition planTrades :: "ident \<Rightarrow> ident \<Rightarrow> ident \<Rightarrow> side \<Rightarrow> (order \<times> rat) list \<Rightarrow> trade list" where
  "planTrades uid marketId outcomeId type plan =
     concat (map (\<lambda>(r, f). fillTrades uid marketId outcomeId type r f) plan)"

section \<open>Order cancellation (DELETE /api/orders/[id])\<close>

definition order_findUnique :: "ident \<Rightarrow> db \<Rightarrow> order option" where
  "order_findUnique oid s = find (\<lambda>r. order_id r = oid) (orders s)"

text \<open>The refund is credited to \<open>user.id\<close>, the caller of the request.\<close>

definition cancelTx :: "ident \<Rightarrow> order \<Rightarrow> db \<Rightarrow> db option" where
  "cancelTx uid ord s =
     do {
       s1 \<leftarrow> order_update (order_id ord) (\<lambda>r. r\<lparr>status := CANCELLED\<rparr>) s;
       (if order_type ord = BUY then
          (let remainingAmount = amount ord - filled ord in
           if remainingAmount > 0 then
             do {
               s2 \<leftarrow> user_increment_balance uid remainingAmount s1;
               Some (transaction_create \<lparr>transaction_userId = uid,
                       transaction_amount = remainingAmount,
                       transaction_type = ''ORDER_CANCEL_REFUND'',
                       transaction_metadata = None\<rparr> s2)
             }
           else Some s1)
        else Some s1)
     }"

definition orders_DELETE :: "ident option \<Rightarrow> ident \<Rightarrow> db \<Rightarrow> (error + unit) \<times> db" where
  "orders_DELETE session oid s =
     (case session of
        None \<Rightarrow> (Inl Unauthorized, s)
      | Some uid \<Rightarrow>
     (case users s uid of
        None \<Rightarrow> (Inl UserNotFound, s)
      | Some user \<Rightarrow>
     (case order_findUnique oid s of
        None \<Rightarrow> (Inl OrderNotFound, s)
      | Some ord \<Rightarrow>
     if order_userId ord \<noteq> uid \<and> \<not> isAdmin user then (Inl Forbidden, s) else
     if status ord \<noteq> OPEN then (Inl AlreadyClosed, s) else
     (case markets s (order_marketId ord) of
        None \<Rightarrow> (Inl InternalError, s)
      | Some market \<Rightarrow>
     if isResolved market then (Inl MarketResolved, s) else
     (case cancelTx uid ord s of
        None \<Rightarrow> (Inl InternalError, s)
      | Some s' \<Rightarrow> (Inr (), s'))))))"

section \<open>Market resolution (PATCH /api/markets/[id])\<close>

definition holdingInMarket :: "ident \<Rightarrow> db \<Rightarrow> userOutcome \<Rightarrow> bool" where
  "holdingInMarket marketId s h =
     (case outcome_findUnique (holding_outcomeId h) s of
        None \<Rightarrow> False
      | Some oc \<Rightarrow> outcome_marketId oc = marketId)"

text \<open>The winner's branch of the holdings loop, and the BUY branch of the open-orders loop.\<close>

definition payWinner :: "ident \<Rightarrow> userOutcome \<Rightarrow> db \<Rightarrow> db option" where
  "payWinner resolvedId holding s =
     (if holding_outcomeId holding = resolvedId then
        do {
          a \<leftarrow> user_increment_balance (holding_userId holding) (quantity holding) s;
          Some (transaction_create \<lparr>transaction_userId = holding_userId holding,
                  transaction_amount = quantity holding,
                  transaction_type = ''MARKET_RESOLUTION_PAYOUT'',
                  transaction_metadata = None\<rparr> a)
        }
      else Some s)"

definition refundOrder :: "order \<Rightarrow> db \<Rightarrow> db option" where
  "refundOrder ord s =
     (if order_type ord = BUY \<and> amount ord - filled ord > 0 then
        do {
          a \<leftarrow> user_increment_balance (order_userId ord) (amount ord - filled ord) s;
          Some (transaction_create \<lparr>transaction_userId = order_userId ord,
                  transaction_amount = amount ord - filled ord,
                  transaction_type = ''ORDER_REFUND'',
                  transaction_metadata = None\<rparr> a)
        }
      else Some s)"

fun payoutLoop :: "ident \<Rightarrow> userOutcome list \<Rightarrow> db \<Rightarrow> db option" where
  "payoutLoop resolvedId [] s = Some s"
| "payoutLoop resolvedId (holding # rest) s =
     (if quantity holding \<le> 0 then payoutLoop resolvedId rest s
      else
        do {
          s1 \<leftarrow> payWinner resolvedId holding s;
          s2 \<leftarrow> userOutcome_update (holding_id holding) (\<lambda>h. h\<lparr>quantity := 0\<rparr>) s1;
          payoutLoop resolvedId rest s2
        })"

fun refundLoop :: "order list \<Rightarrow> db \<Rightarrow> db option" where
  "refundLoop [] s = Some s"
| "refundLoop (ord # rest) s =
     do {
       s1 \<leftarrow> refundOrder ord s;
       s2 \<leftarrow> order_update (order_id ord) (\<lambda>r. r\<lparr>status := CANCELLED\<rparr>) s1;
       refundLoop rest s2
     }"

definition resolveTx :: "ident \<Rightarrow> ident \<Rightarrow> db \<Rightarrow> db option" where
  "resolveTx marketId resolvedId s =
     do {
       s1 \<leftarrow> (case markets s marketId of
                 None \<Rightarrow> None
               | Some m \<Rightarrow> Some (s\<lparr>markets := (markets s)(marketId \<mapsto>
                              m\<lparr>isResolved := True, resolvedOutcomeId := Some resolvedId\<rparr>)\<rparr>));
       s2 \<leftarrow> outcome_update resolvedId (\<lambda>oc. oc\<lparr>outcome_isResolved := True\<rparr>) s1;
       s3 \<leftarrow> payoutLoop resolvedId
               (filter (\<lambda>h. holdingInMarket marketId s2 h \<and> quantity h > 0) (holdings s2)) s2;
       refundLoop (filter (\<lambda>r. order_marketId r = marketId \<and> status r = OPEN) (orders s3)) s3
     }"

definition markets_PATCH :: "ident option \<Rightarrow> ident \<Rightarrow> ident option \<Rightarrow> db \<Rightarrow> (error + unit) \<times> db" where
  "markets_PATCH session marketId body s =
     (case session of
        None \<Rightarrow> (Inl Unauthorized, s)
      | Some uid \<Rightarrow>
     (case users s uid of
        None \<Rightarrow> (Inl UserNotFound, s)
      | Some user \<Rightarrow>
     (case markets s marketId of
        None \<Rightarrow> (Inl MarketNotFound, s)
      | Some market \<Rightarrow>
     if \<not> isAdmin user then (Inl Forbidden, s) else
     if isResolved market then (Inl AlreadyResolved, s) else
     (case body of
        None \<Rightarrow> (Inl OutcomeRequired, s)
      | Some resolvedId \<Rightarrow>
     (case outcome_findFirst resolvedId marketId s of
        None \<Rightarrow> (Inl InvalidOutcome, s)
      | Some outcome \<Rightarrow>
     (case resolveTx marketId resolvedId s of
        None \<Rightarrow> (Inl InternalError, s)
      | Some s' \<Rightarrow> (Inr (), s')))))))"

text \<open>
  What resolution owes a user: the quantities of the user's positive holdings of the
  winning outcome in the market, and what is left of the user's OPEN BUY orders in it;
  and the ledger rows written for them.
\<close>

definition winningHoldings :: "ident \<Rightarrow> ident \<Rightarrow> db \<Rightarrow> userOutcome list" where
  "winningHoldings marketId resolvedId s =
     filter (\<lambda>h. holdingInMarket marketId s h \<and> quantity h > 0
                 \<and> holding_outcomeId h = resolvedId) (holdings s)"

definition openBuyOrders :: "ident \<Rightarrow> db \<Rightarrow> order list" where
  "openBuyOrders marketId s =
     filter (\<lambda>r. order_marketId r = marketId \<and> status r = OPEN \<and> order_type r = BUY) (orders s)"

definition payoutOwed :: "ident \<Rightarrow> ident \<Rightarrow> ident \<Rightarrow> db \<Rightarrow> rat" where
  "payoutOwed uid marketId resolvedId s =
     sum_list (map quantity
       (filter (\<lambda>h. holding_userId h = uid) (winningHoldings marketId resolvedId s)))"

definition refundOwed :: "ident \<Rightarrow> ident \<Rightarrow> db \<Rightarrow> rat" where
  "refundOwed uid marketId s =
     sum_list (map (\<lambda>r. amount r - filled r)
       (filter (\<lambda>r. order_userId r = uid) (openBuyOrders marketId s)))"

definition payoutRow :: "userOutcome \<Rightarrow> transaction" where
  "payoutRow h =
     \<lparr>transaction_userId = holding_userId h, transaction_amount = quantity h,
      transaction_type = ''MARKET_RESOLUTION_PAYOUT'', transaction_metadata = None\<rparr>"

definition refundRow :: "order \<Rightarrow> transaction" where
  "refundRow r =
     \<lparr>transaction_userId = order_userId r, transaction_amount = amount r - filled r,
      transaction_type = ''ORDER_REFUND'', transaction_metadata = None\<rparr>"

section \<open>Trade execution with YES/NO positions (the second copy of the trade handler)\<close>

record positionTradeRequest = tradeRequest +
  req_positionType :: positionType

definition isProbablyNo :: "rat \<Rightarrow> rat \<Rightarrow> bool" where
  "isProbablyNo existingAvgPrice p =
     (\<bar>existingAvgPrice - (1 - p)\<bar> \<le> \<bar>existingAvgPrice - p\<bar>)"

text \<open>The check of the SELL branches: a holding, with a positive quantity that covers the sale.\<close>

definition checkAvailable :: "userOutcome option \<Rightarrow> rat \<Rightarrow> userOutcome option" where
  "checkAvailable userHolding shares =
     (case userHolding of
        None \<Rightarrow> None
      | Some h \<Rightarrow> if quantity h \<le> 0 \<or> quantity h < shares then None else Some h)"

text \<open>Selling everything deletes the row; selling less decrements it.\<close>

definition disposeShares :: "userOutcome \<Rightarrow> rat \<Rightarrow> db \<Rightarrow> db option" where
  "disposeShares userHolding shares s =
     (if quantity userHolding \<le> shares then userOutcome_delete (holding_id userHolding) s
      else userOutcome_update (holding_id userHolding)
             (\<lambda>h. h\<lparr>quantity := quantity h - shares\<rparr>) s)"

definition positionHoldings ::
  "ident \<Rightarrow> outcome \<Rightarrow> 'a positionTradeRequest_scheme \<Rightarrow> db \<Rightarrow> (db \<times> rat \<times> rat) option" where
  "positionHoldings uid outcome req s0 =
     (let outcomeId = req_outcomeId req; amt = req_amount req; p = probability outcome;
          noSharePrice = 1 - p; mode = req_isSharesMode req
      in case (req_type req, req_positionType req) of
           (BUY, YES) \<Rightarrow>
             do { shares \<leftarrow> sharesPurchased amt p;
                  s \<leftarrow> buyHolding uid outcomeId shares amt p s0;
                  Some (s, 0, 0) }
         | (BUY, NO) \<Rightarrow>
             do { shares \<leftarrow> sharesToSell mode amt noSharePrice;
                  let cost = sellAmount mode amt noSharePrice;
                  s \<leftarrow> (case userOutcome_findFirst uid outcomeId s0 of
                          Some userHolding \<Rightarrow>
                            if isProbablyNo (avgPrice userHolding) p then
                              (let newQuantity = quantity userHolding + shares;
                                   newValue = quantity userHolding * avgPrice userHolding + cost
                               in if newQuantity = 0 then None
                                  else userOutcome_update (holding_id userHolding)
                                         (\<lambda>h. h\<lparr>quantity := newQuantity,
                                                 avgPrice := newValue / newQuantity\<rparr>) s0)
                            else userOutcome_create uid outcomeId shares noSharePrice s0
                        | None \<Rightarrow> userOutcome_create uid outcomeId shares noSharePrice s0);
                  Some (s, cost, 0) }
         | (SELL, YES) \<Rightarrow>
             do { shares \<leftarrow> sharesToSell mode amt p;
                  let proceeds = sellAmount mode amt p;
                  userHolding \<leftarrow> checkAvailable (userOutcome_findFirst uid outcomeId s0) shares;
                  s \<leftarrow> disposeShares userHolding shares s0;
                  Some (s, proceeds, proceeds - shares * avgPrice userHolding) }
         | (SELL, NO) \<Rightarrow>
             do { h \<leftarrow> userOutcome_findFirst uid outcomeId s0;
                  _ \<leftarrow> (if isProbablyNo (avgPrice h) p then Some () else None);
                  shares \<leftarrow> sharesToSell mode amt noSharePrice;
                  let proceeds = sellAmount mode amt noSharePrice;
                  userHolding \<leftarrow> checkAvailable (Some h) shares;
                  s \<leftarrow> disposeShares userHolding shares s0;
                  Some (s, proceeds, proceeds - shares * avgPrice userHolding) })"

text \<open>
  The transaction body of the second copy. \<open>positionHoldings\<close> returns the store, the
  handler's \<open>sellAmount\<close> variable and \<open>profitLoss\<close>. The trade row is written between the
  pre-checks and the holding update; a failure of either aborts the same transaction.
\<close>

definition positionTradeTx ::
  "ident \<Rightarrow> market \<Rightarrow> outcome \<Rightarrow> 'a positionTradeRequest_scheme \<Rightarrow> db \<Rightarrow> db option" where
  "positionTradeTx uid market outcome req s0 =
     (let amt = req_amount req; type = req_type req; p = probability outcome
      in do {
        _ \<leftarrow> (if type = SELL \<and> req_positionType req = YES
              then (case outcome_findUnique (req_outcomeId req) s0 of
                      None \<Rightarrow> None | Some _ \<Rightarrow> Some ())
              else Some ());
        (s2, sellAmt, profitLoss) \<leftarrow>
          positionHoldings uid outcome req (trade_create (tradeRow uid outcome req) s0);
        s3 \<leftarrow> tradeLedger uid type
                (case (type, req_positionType req) of
                   (BUY, YES) \<Rightarrow> - amt
                 | (SELL, YES) \<Rightarrow> sellAmount (req_isSharesMode req) amt p
                 | (SELL, NO) \<Rightarrow> sellAmt
                 | (BUY, NO) \<Rightarrow> - sellAmt)
                (if type = BUY then - amt else sellAmt) profitLoss s2;
        tradeImpact market outcome req s3
      })"

definition trades_POST_positions ::
  "ident option \<Rightarrow> 'a positionTradeRequest_scheme \<Rightarrow> db \<Rightarrow> (error + unit) \<times> db" where
  "trades_POST_positions session req s =
     (case session of
        None \<Rightarrow> (Inl Unauthorized, s)
      | Some uid \<Rightarrow>
     (case users s uid of
        None \<Rightarrow> (Inl UserNotFound, s)
      | Some user \<Rightarrow>
     if \<not> req_amount req > 0 then (Inl ValidationFailed, s) else
     (case markets s (req_marketId req) of
        None \<Rightarrow> (Inl MarketNotFound, s)
      | Some market \<Rightarrow>
     if isResolved market then (Inl MarketResolved, s) else
     (case outcome_findFirst (req_outcomeId req) (req_marketId req) s of
        None \<Rightarrow> (Inl InvalidOutcome, s)
      | Some outcome \<Rightarrow>
     if req_type req = BUY \<and> balance user < req_amount req then (Inl InsufficientBalance, s) else
     (case positionTradeTx uid market outcome req s of
        None \<Rightarrow> (Inl InternalError, s)
      | Some s' \<Rightarrow> (Inr (), s'))))))"

section \<open>Example stores\<close>

text \<open>
  Three registered users with the initial balance of 1000, the first an administrator,
  and nothing else; \<open>market2\<close>, \<open>market3\<close> and \<open>market7\<close> are this store after the
  administrator has created one market (id 10) with two, three and seven outcomes
  (ids from 11).
\<close>

definition exampleDb :: db where
  "exampleDb =
     \<lparr>users = [1 \<mapsto> \<lparr>balance = 1000, isAdmin = True\<rparr>,
               2 \<mapsto> \<lparr>balance = 1000, isAdmin = False\<rparr>,
               3 \<mapsto> \<lparr>balance = 1000, isAdmin = False\<rparr>],
      markets = Map.empty, outcomes = [], orders = [], trades = [], holdings = [],
      transactions = [], nextId = 10\<rparr>"

definition market2 :: db where
  "market2 = snd (markets_POST (Some 1) True 2 exampleDb)"

definition market3 :: db where
  "market3 = snd (markets_POST (Some 1) True 3 exampleDb)"


text \<open>A dollar-mode BUY of \<open>amt\<close> on outcome 11 of market 10.\<close>

definition buyRequest :: "rat \<Rightarrow> tradeRequest" where
  "buyRequest amt =
     \<lparr>req_marketId = 10, req_outcomeId = 11, req_amount = amt, req_type = BUY,
      req_isSharesMode = False\<rparr>"


definition market3AfterBuy :: db where
  "market3AfterBuy = snd (trades_POST (Some 2) (buyRequest 50) market3)"

definition market2AfterBuy :: db where
  "market2AfterBuy = snd (trades_POST (Some 2) (buyRequest 50) market2)"



text \<open>
  Order-book scenarios on \<open>market2\<close>. User 3 first buys 5 on outcome 11 through the
  immediate path (10 shares at 0.50), then rests LIMIT SELL orders; user 2 takes them
  with MARKET BUY orders.
\<close>

definition limitOrder :: "side \<Rightarrow> rat \<Rightarrow> rat \<Rightarrow> orderRequest" where
  "limitOrder type amt prc =
     \<lparr>oreq_marketId = 10, oreq_outcomeId = 11, oreq_type = type, oreq_orderType = LIMIT,
      oreq_amount = amt, oreq_price = Some prc\<rparr>"

definition marketOrder :: "side \<Rightarrow> rat \<Rightarrow> orderRequest" where
  "marketOrder type amt =
     \<lparr>oreq_marketId = 10, oreq_outcomeId = 11, oreq_type = type, oreq_orderType = MARKET,
      oreq_amount = amt, oreq_price = None\<rparr>"

definition holder3 :: db where
  "holder3 = snd (trades_POST (Some 3) (buyRequest 5) market2)"

definition bookOneSell :: db where
  "bookOneSell = snd (orders_POST (Some 3) (limitOrder SELL 10 (3 / 5)) holder3)"

definition bookTwoSells :: db where
  "bookTwoSells = snd (orders_POST (Some 3) (limitOrder SELL 10 (7 / 10)) bookOneSell)"

definition bookOversold :: db where
  "bookOversold = snd (orders_POST (Some 2) (marketOrder BUY 20) bookTwoSells)"

definition bookPartialBuy :: db where
  "bookPartialBuy = snd (orders_POST (Some 2) (marketOrder BUY 20) bookOneSell)"

definition bookAfterCancel :: db where
  "bookAfterCancel = snd (orders_DELETE (Some 2) 15 bookPartialBuy)"




text \<open>
  User 3 buys 25 (50 shares), user 2 rests a LIMIT BUY of 100 at 0.50, user 3 sells 30
  into it with a MARKET SELL, and the administrator (user 1) cancels user 2's order.
\<close>

definition holder3Large :: db where
  "holder3Large = snd (trades_POST (Some 3) (buyRequest 25) market2)"

definition bookLimitBuy :: db where
  "bookLimitBuy = snd (orders_POST (Some 2) (limitOrder BUY 100 (1 / 2)) holder3Large)"

definition bookLimitBuyFilled30 :: db where
  "bookLimitBuyFilled30 = snd (orders_POST (Some 3) (marketOrder SELL 30) bookLimitBuy)"

definition bookAdminCancel :: db where
  "bookAdminCancel = snd (orders_DELETE (Some 1) 14 bookLimitBuyFilled30)"

definition bookOwnerCancel :: db where
  "bookOwnerCancel = snd (orders_DELETE (Some 2) 14 bookLimitBuyFilled30)"

text \<open>The first resting order of \<open>bookOneSell\<close>, and that store after user 2 has filled it whole.\<close>

definition restingSell :: order where
  "restingSell =
     \<lparr>order_id = 14, order_userId = 3, order_marketId = 10, order_outcomeId = 11,
      order_type = SELL, orderType = LIMIT, amount = 10, price = 3 / 5, filled = 0,
      status = OPEN\<rparr>"


text \<open>
  Resolution scenario: user 2 buys 20 on outcome 11 at 0.50 (40 shares), user 3 buys 0.25
  on outcome 12 at 0.01 (25 shares) and rests a LIMIT BUY of 100; the administrator
  resolves market 10 for outcome 11.
\<close>

definition holders :: db where
  "holders =
     snd (orders_POST (Some 3) (limitOrder BUY 100 (1 / 2))
       (snd (trades_POST (Some 3)
              \<lparr>req_marketId = 10, req_outcomeId = 12, req_amount = 1 / 4, req_type = BUY,
               req_isSharesMode = False\<rparr>
         (snd (trades_POST (Some 2) (buyRequest 20) market2)))))"

definition resolved :: db where
  "resolved = snd (markets_PATCH (Some 1) 10 (Some 11) holders)"



definition partialBuyResult :: orderResult where
  "partialBuyResult = projr (fst (orders_POST (Some 2) (marketOrder BUY 20) bookOneSell))"

definition limitBuyResult :: orderResult where
  "limitBuyResult = projr (fst (orders_POST (Some 2) (limitOrder BUY 100 (1 / 2)) holder3Large))"

text \<open>
  User 3 of \<open>holder3\<close> (10 shares of outcome 11 bought at 0.50, now priced 0.75) sells all
  10 in shares mode, through the trade handler and through its second copy.
\<close>

definition sellAllRequest :: tradeRequest where
  "sellAllRequest =
     \<lparr>req_marketId = 10, req_outcomeId = 11, req_amount = 10, req_type = SELL,
      req_isSharesMode = True\<rparr>"

definition sellAllYesRequest :: positionTradeRequest where
  "sellAllYesRequest =
     \<lparr>req_marketId = 10, req_outcomeId = 11, req_amount = 10, req_type = SELL,
      req_isSharesMode = True, req_positionType = YES\<rparr>"

definition holder3SoldAll :: db where
  "holder3SoldAll = snd (trades_POST (Some 3) sellAllRequest holder3)"

definition holder3SoldAllYes :: db where
  "holder3SoldAllYes = snd (trades_POST_positions (Some 3) sellAllYesRequest holder3)"

lemma round_half_error: "\<bar>of_int \<lfloor>y + 1 / 2\<rfloor> - (y::rat)\<bar> \<le> 1 / 2"
proof -
  have "of_int \<lfloor>y + 1 / 2\<rfloor> \<le> y + 1 / 2" by (rule of_int_floor_le)
  moreover have "y + 1 / 2 < of_int \<lfloor>y + 1 / 2\<rfloor> + 1" by linarith
  ultimately show ?thesis by linarith
qed

lemma scaled_error:
  fixes a x :: rat
  assumes "\<bar>a - x * 10000\<bar> \<le> 1 / 2"
  shows "\<bar>a / 10000 - x\<bar> \<le> 1 / 20000"
  using assms by linarith

lemma toFixed4_error: "\<bar>toFixed4 x - x\<bar> \<le> 1 / 20000"
proof (cases "x < 0")
  case True
  have "\<bar>of_int \<lfloor>- x * 10000 + 1 / 2\<rfloor> - (- x) * 10000\<bar> \<le> 1 / 2"
    using round_half_error[of "- x * 10000"] by simp
  then have "\<bar>of_int \<lfloor>- x * 10000 + 1 / 2\<rfloor> / 10000 - (- x)\<bar> \<le> 1 / 20000"
    by (rule scaled_error)
  moreover have "toFixed4 x - x = - (of_int \<lfloor>- x * 10000 + 1 / 2\<rfloor> / 10000 - (- x))"
    using True by (simp add: toFixed4_def)
  ultimately show ?thesis by (simp only: abs_minus)
next
  case False
  have "\<bar>of_int \<lfloor>x * 10000 + 1 / 2\<rfloor> - x * 10000\<bar> \<le> 1 / 2" by (rule round_half_error)
  then have "\<bar>of_int \<lfloor>x * 10000 + 1 / 2\<rfloor> / 10000 - x\<bar> \<le> 1 / 20000"
    by (rule scaled_error)
  then show ?thesis using False by (simp add: toFixed4_def)
qed

lemma toFixed4_grid: "0 \<le> k \<Longrightarrow> toFixed4 (of_int k / 10000) = of_int k / 10000"
proof -
  assume k: "0 \<le> k"
  have "\<lfloor>(of_int k :: rat) + 1 / 2\<rfloor> = k" by (simp add: floor_unique)
  with k show ?thesis by (simp add: toFixed4_def)
qed

lemma toFixed4_nonneg_mono: "0 \<le> x \<Longrightarrow> x \<le> y \<Longrightarrow> toFixed4 x \<le> toFixed4 y"
  by (simp add: toFixed4_def divide_right_mono floor_mono)

lemma toFixed4_is_grid: "0 \<le> x \<Longrightarrow> \<exists>k\<ge>0. toFixed4 x = of_int k / 10000"
  apply (rule exI[of _ "\<lfloor>x * 10000 + 1 / 2\<rfloor>"]) by (simp add: toFixed4_def)

lemma newProbability_bounds:
  "1 / 100 \<le> newProbability t p a v \<and> newProbability t p a v \<le> 99 / 100"
proof -
  define c where "c = max (1 / 100) (min (99 / 100)
     (case t of BUY \<Rightarrow> p + impactFactor a v * (1 - p) | SELL \<Rightarrow> p - impactFactor a v * p))"
  have c: "1 / 100 \<le> c" "c \<le> 99 / 100" by (simp_all add: c_def)
  have np: "newProbability t p a v = toFixed4 c" by (simp add: newProbability_def c_def Let_def)
  have lo: "toFixed4 (1 / 100) = 1 / 100" using toFixed4_grid[of 100] by simp
  have hi: "toFixed4 (99 / 100) = 99 / 100" using toFixed4_grid[of 9900] by simp
  have "toFixed4 (1 / 100) \<le> toFixed4 c" using c by (intro toFixed4_nonneg_mono) simp_all
  moreover have "toFixed4 c \<le> toFixed4 (99 / 100)" using c by (intro toFixed4_nonneg_mono) simp_all
  ultimately show ?thesis by (simp add: np lo hi)
qed

lemma newProbability_grid: "\<exists>k\<ge>0. newProbability t p a v = of_int k / 10000"
  unfolding newProbability_def Let_def
  by (rule toFixed4_is_grid) simp

lemma toFixed4_complement:
  assumes "newProbability t p a v = np"
  shows "toFixed4 (1 - np) = 1 - np"
proof -
  obtain k where k: "0 \<le> k" "np = of_int k / 10000" using newProbability_grid assms by metis
  have "np \<le> 99 / 100" using newProbability_bounds assms by metis
  then have "k \<le> 10000" using k by simp
  then have "toFixed4 (of_int (10000 - k) / 10000) = of_int (10000 - k) / 10000"
    by (intro toFixed4_grid) simp
  then show ?thesis by (simp add: k diff_divide_distrib)
qed

lemma user_increment_balance_Some:
  "user_increment_balance uid d s = Some s' \<longleftrightarrow>
     (\<exists>u. users s uid = Some u \<and> s' = s\<lparr>users := (users s)(uid \<mapsto> u\<lparr>balance := balance u + d\<rparr>)\<rparr>)"
  by (auto simp: user_increment_balance_def split: option.splits)

lemma market_increment_volume_Some:
  "market_increment_volume mid d s = Some s' \<longleftrightarrow>
     (\<exists>m. markets s mid = Some m \<and> s' = s\<lparr>markets := (markets s)(mid \<mapsto> m\<lparr>volume := volume m + d\<rparr>)\<rparr>)"
  by (auto simp: market_increment_volume_def split: option.splits)

lemma userOutcome_update_Some:
  "userOutcome_update hid f s = Some s' \<longleftrightarrow>
     (list_ex (\<lambda>h. holding_id h = hid) (holdings s) \<and>
      s' = s\<lparr>holdings := map (\<lambda>h. if holding_id h = hid then f h else h) (holdings s)\<rparr>)"
  by (auto simp: userOutcome_update_def)

lemma userOutcome_create_Some:
  "userOutcome_create uid oid q p s = Some s' \<longleftrightarrow>
     (\<not> list_ex (\<lambda>h. holding_userId h = uid \<and> holding_outcomeId h = oid) (holdings s) \<and>
      s' = s\<lparr>holdings := holdings s @
                     [\<lparr>holding_id = nextId s, holding_userId = uid, holding_outcomeId = oid,
                       quantity = q, avgPrice = p\<rparr>],
                   nextId := Suc (nextId s)\<rparr>)"
  by (auto simp: userOutcome_create_def)

lemma userOutcome_delete_Some:
  "userOutcome_delete hid s = Some s' \<longleftrightarrow>
     (list_ex (\<lambda>h. holding_id h = hid) (holdings s) \<and>
      s' = s\<lparr>holdings := filter (\<lambda>h. holding_id h \<noteq> hid) (holdings s)\<rparr>)"
  by (auto simp: userOutcome_delete_def)

lemma order_update_Some:
  "order_update oid f s = Some s' \<longleftrightarrow>
     (list_ex (\<lambda>r. order_id r = oid) (orders s) \<and>
      s' = s\<lparr>orders := map (\<lambda>r. if order_id r = oid then f r else r) (orders s)\<rparr>)"
  by (auto simp: order_update_def)

lemma outcome_update_Some:
  "outcome_update oid f s = Some s' \<longleftrightarrow>
     (list_ex (\<lambda>oc. outcome_id oc = oid) (outcomes s) \<and>
      s' = s\<lparr>outcomes := map (\<lambda>oc. if outcome_id oc = oid then f oc else oc) (outcomes s)\<rparr>)"
  by (auto simp: outcome_update_def)

lemma buyHolding_frame:
  assumes "buyHolding uid oid shares cost avg s = Some s'"
  shows "outcomes s' = outcomes s" "markets s' = markets s" "users s' = users s"
    "orders s' = orders s" "trades s' = trades s" "transactions s' = transactions s"
  using assms
  by (auto simp: buyHolding_def Let_def userOutcome_update_Some userOutcome_create_Some
      split: option.splits if_splits)

lemma redistribute_outcomes:
  assumes "redistribute m oid np s = Some s'"
  shows "s' = s\<lparr>outcomes := map (\<lambda>oc.
           if outcome_id oc = oid then oc\<lparr>probability := np\<rparr>
           else if outcome_marketId oc = m \<and> 1 < length (outcome_findMany m s)
           then oc\<lparr>probability := toFixed4 (probability oc *
                      scaleFactor np (totalOtherProbability m oid s))\<rparr>
           else oc) (outcomes s)\<rparr>"
  using assms
  by (auto simp: redistribute_def bind_eq_Some_conv outcome_update_Some split: if_splits)

lemma redistribute_total_nonzero:
  assumes "redistribute m oid np s = Some s'" "1 < length (outcome_findMany m s)"
    "otherOutcomes m oid s \<noteq> []"
  shows "totalOtherProbability m oid s \<noteq> 0"
  using assms
  by (auto simp: redistribute_def bind_eq_Some_conv split: if_splits)

lemma filter_map_preserve: "(\<And>x. P (f x) = P x) \<Longrightarrow> filter P (map f xs) = map f (filter P xs)"
  by (induction xs) auto

lemma redistribute_market:
  assumes "redistribute m oid np s = Some s'" "1 < length (outcome_findMany m s)"
  shows "outcome_findMany m s' = map (\<lambda>oc.
           if outcome_id oc = oid then oc\<lparr>probability := np\<rparr>
           else oc\<lparr>probability := toFixed4 (probability oc *
                      scaleFactor np (totalOtherProbability m oid s))\<rparr>) (outcome_findMany m s)"
proof -
  let ?g = "\<lambda>oc. if outcome_id oc = oid then oc\<lparr>probability := np\<rparr>
           else if outcome_marketId oc = m \<and> 1 < length (outcome_findMany m s)
           then oc\<lparr>probability := toFixed4 (probability oc *
                      scaleFactor np (totalOtherProbability m oid s))\<rparr>
           else oc"
  have eq: "outcomes s' = map ?g (outcomes s)"
    using redistribute_outcomes[OF assms(1)] by simp
  have "filter (\<lambda>oc. outcome_marketId oc = m) (map ?g (outcomes s)) =
        map ?g (filter (\<lambda>oc. outcome_marketId oc = m) (outcomes s))"
    by (rule filter_map_preserve) simp
  then have "outcome_findMany m s' = map ?g (filter (\<lambda>oc. outcome_marketId oc = m) (outcomes s))"
    unfolding outcome_findMany_def eq .
  also have "\<dots> = map (\<lambda>oc.
           if outcome_id oc = oid then oc\<lparr>probability := np\<rparr>
           else oc\<lparr>probability := toFixed4 (probability oc *
                      scaleFactor np (totalOtherProbability m oid s))\<rparr>)
            (filter (\<lambda>oc. outcome_marketId oc = m) (outcomes s))"
    using assms(2) by (intro map_cong) auto
  finally show ?thesis by (simp add: outcome_findMany_def)
qed

lemma sum_untraded:
  assumes "oid \<notin> outcome_id ` set ys"
  shows "sum_list (map probability (map (\<lambda>oc. if outcome_id oc = oid then oc\<lparr>probability := np\<rparr>
            else oc\<lparr>probability := h oc\<rparr>) ys)) = sum_list (map h ys)"
  using assms by (induction ys) auto

lemma sum_split_traded:
  assumes "distinct (map outcome_id ys)" "oid \<in> outcome_id ` set ys"
  shows "sum_list (map probability (map (\<lambda>oc. if outcome_id oc = oid then oc\<lparr>probability := np\<rparr>
            else oc\<lparr>probability := h oc\<rparr>) ys)) =
         np + sum_list (map h (filter (\<lambda>oc. outcome_id oc \<noteq> oid) ys))"
  using assms
proof (induction ys)
  case Nil
  then show ?case by simp
next
  case (Cons y ys)
  show ?case
  proof (cases "outcome_id y = oid")
    case True
    then have notin: "oid \<notin> outcome_id ` set ys" using Cons.prems(1) by auto
    then have "filter (\<lambda>oc. outcome_id oc \<noteq> oid) ys = ys"
      by (auto simp: filter_id_conv)
    then show ?thesis using True sum_untraded[OF notin, of np h] by simp
  next
    case False
    then have "oid \<in> outcome_id ` set ys" using Cons.prems(2) by auto
    moreover have "distinct (map outcome_id ys)" using Cons.prems(1) by simp
    ultimately show ?thesis using Cons.IH False by simp
  qed
qed

lemma length_others:
  assumes "distinct (map outcome_id ys)" "oid \<in> outcome_id ` set ys"
  shows "Suc (length (filter (\<lambda>oc. outcome_id oc \<noteq> oid) ys)) = length ys"
  using assms
proof (induction ys)
  case Nil
  then show ?case by simp
next
  case (Cons y ys)
  show ?case
  proof (cases "outcome_id y = oid")
    case True
    then have "oid \<notin> outcome_id ` set ys" using Cons.prems(1) by auto
    then have "filter (\<lambda>oc. outcome_id oc \<noteq> oid) ys = ys"
      by (auto simp: filter_id_conv)
    then show ?thesis using True by simp
  next
    case False
    then have "oid \<in> outcome_id ` set ys" using Cons.prems(2) by auto
    moreover have "distinct (map outcome_id ys)" using Cons.prems(1) by simp
    ultimately show ?thesis using Cons.IH False by simp
  qed
qed

lemma rounding_sum_error:
  "\<bar>sum_list (map (\<lambda>oc. toFixed4 (f oc)) xs) - sum_list (map f xs)\<bar> \<le> of_nat (length xs) / 20000"
proof (induction xs)
  case Nil
  then show ?case by simp
next
  case (Cons x xs)
  have e: "\<bar>toFixed4 (f x) - f x\<bar> \<le> 1 / 20000" by (rule toFixed4_error)
  have l: "(of_nat (length (x # xs)) :: rat) / 20000 = of_nat (length xs) / 20000 + 1 / 20000"
    by (simp add: add_divide_distrib)
  show ?case unfolding list.map sum_list.Cons l using Cons.IH e by linarith
qed

lemma scaled_sum:
  fixes c :: rat
  assumes "sum_list (map probability xs) \<noteq> 0"
  shows "sum_list (map (\<lambda>oc. probability oc * scaleFactor np (sum_list (map probability xs))) xs) = 1 - np"
proof -
  have "sum_list (map (\<lambda>oc. probability oc * scaleFactor np (sum_list (map probability xs))) xs)
        = sum_list (map probability xs) * scaleFactor np (sum_list (map probability xs))"
    by (simp add: sum_list_mult_const)
  also have "\<dots> = 1 - np" using assms by (simp add: scaleFactor_def)
  finally show ?thesis .
qed

lemma redistribute_sum:
  assumes r: "redistribute m oid np s = Some s'"
    and n: "2 \<le> length (outcome_findMany m s)"
    and d: "distinct (map outcome_id (outcome_findMany m s))"
    and mem: "oid \<in> outcome_id ` set (outcome_findMany m s)"
  shows "\<bar>probabilitySum m s' - 1\<bar> \<le> (of_nat (length (outcome_findMany m s)) - 1) / 20000"
proof -
  let ?ys = "outcome_findMany m s"
  let ?others = "otherOutcomes m oid s"
  let ?h = "\<lambda>oc. toFixed4 (probability oc * scaleFactor np (totalOtherProbability m oid s))"
  have len: "Suc (length ?others) = length ?ys"
    unfolding otherOutcomes_def using d mem by (rule length_others)
  then have ne: "?others \<noteq> []" using n by auto
  have tot: "totalOtherProbability m oid s \<noteq> 0"
    using r n ne by (intro redistribute_total_nonzero[of m oid np s s']) auto
  have "outcome_findMany m s' = map (\<lambda>oc. if outcome_id oc = oid then oc\<lparr>probability := np\<rparr>
           else oc\<lparr>probability := ?h oc\<rparr>) ?ys"
    using r n by (intro redistribute_market) auto
  then have p: "probabilitySum m s' = np + sum_list (map ?h ?others)"
    unfolding probabilitySum_def otherOutcomes_def using sum_split_traded[OF d mem] by simp
  have e: "\<bar>sum_list (map ?h ?others) -
      sum_list (map (\<lambda>oc. probability oc * scaleFactor np (totalOtherProbability m oid s)) ?others)\<bar>
       \<le> of_nat (length ?others) / 20000"
    by (rule rounding_sum_error)
  have q: "sum_list (map (\<lambda>oc. probability oc * scaleFactor np (totalOtherProbability m oid s)) ?others)
     = 1 - np"
    using tot unfolding totalOtherProbability_def by (rule scaled_sum)
  have "(of_nat (length ?ys) :: rat) = of_nat (length ?others) + 1"
    unfolding len[symmetric] by simp
  then have l: "(of_nat (length ?ys) - 1) / 20000 = (of_nat (length ?others) :: rat) / 20000"
    by simp
  show ?thesis unfolding p l using e q by linarith
qed

lemma trades_POST_ok:
  assumes "trades_POST session req s = (Inr (), s')"
  shows "\<exists>uid user market outcome. session = Some uid \<and> users s uid = Some user \<and>
           0 < req_amount req \<and> markets s (req_marketId req) = Some market \<and>
           \<not> isResolved market \<and>
           outcome_findFirst (req_outcomeId req) (req_marketId req) s = Some outcome \<and>
           \<not> (req_type req = BUY \<and> balance user < req_amount req) \<and>
           tradeTx uid market outcome req s = Some s'"
  using assms
  by (auto simp: trades_POST_def split: option.splits if_splits)

lemma tradeHoldings_frame:
  assumes "tradeHoldings uid outcome req uh s = Some (s', pl)"
  shows "outcomes s' = outcomes s \<and> markets s' = markets s \<and> users s' = users s \<and>
    orders s' = orders s \<and> trades s' = trades s \<and> transactions s' = transactions s"
  using assms
  by (auto simp: tradeHoldings_def Let_def bind_eq_Some_conv userOutcome_update_Some
      dest: buyHolding_frame split: if_splits)

lemma tradeLedger_Some:
  "tradeLedger uid type delta ta pl s = Some s' \<longleftrightarrow>
     (\<exists>u. users s uid = Some u \<and>
        s' = s\<lparr>users := (users s)(uid \<mapsto> u\<lparr>balance := balance u + delta\<rparr>),
              transactions := transactions s @ [tradeTransaction type uid ta pl]\<rparr>)"
  by (auto simp: tradeLedger_def bind_eq_Some_conv user_increment_balance_Some transaction_create_def)

lemma tradeTx_steps:
  assumes "tradeTx uid market outcome req s = Some s'"
  shows "\<exists>s3. outcomes s3 = outcomes s \<and> markets s3 = markets s \<and>
           tradeImpact market outcome req s3 = Some s'"
proof -
  from assms obtain uh s2 pl d ta s3 where
    h: "tradeHoldings uid outcome req uh (trade_create (tradeRow uid outcome req) s) = Some (s2, pl)"
    and l: "tradeLedger uid (req_type req) d ta pl s2 = Some s3"
    and i: "tradeImpact market outcome req s3 = Some s'"
    unfolding tradeTx_def Let_def by (auto simp: bind_eq_Some_conv)
  have "outcomes s2 = outcomes s \<and> markets s2 = markets s"
    using tradeHoldings_frame[OF h] by (simp add: trade_create_def)
  then have "outcomes s3 = outcomes s \<and> markets s3 = markets s"
    using l by (auto simp: tradeLedger_Some)
  with i show ?thesis by blast
qed

lemma outcome_findFirst_member:
  assumes "outcome_findFirst oid m s = Some oc"
  shows "oc \<in> set (outcome_findMany m s) \<and> outcome_id oc = oid"
  using assms
  by (auto simp: outcome_findFirst_def outcome_findMany_def find_Some_iff)

lemma same_outcomes:
  assumes "outcomes a = outcomes b"
  shows "outcome_findMany m a = outcome_findMany m b"
    "otherOutcomes m oid a = otherOutcomes m oid b"
    "totalOtherProbability m oid a = totalOtherProbability m oid b"
    "outcome_findUnique oid a = outcome_findUnique oid b"
    "outcome_findFirst oid m a = outcome_findFirst oid m b"
  using assms
  by (simp_all add: outcome_findMany_def otherOutcomes_def totalOtherProbability_def
      outcome_findUnique_def outcome_findFirst_def)

lemma tradeImpact_steps:
  assumes "tradeImpact market outcome req s = Some s'"
  shows "\<exists>mk. markets s (req_marketId req) = Some mk \<and>
           redistribute (req_marketId req) (req_outcomeId req)
             (newProbability (req_type req) (probability outcome) (req_amount req)
                (volumeOr1 (volume market)))
             (s\<lparr>markets := (markets s)(req_marketId req \<mapsto>
                     mk\<lparr>volume := volume mk + req_amount req\<rparr>)\<rparr>) = Some s'"
  using assms
  by (auto simp: tradeImpact_def bind_eq_Some_conv market_increment_volume_Some)

lemma trades_POST_redistribute:
  assumes "trades_POST session req s = (Inr (), s')"
  shows "\<exists>market outcome s1. markets s (req_marketId req) = Some market \<and>
           outcome_findFirst (req_outcomeId req) (req_marketId req) s = Some outcome \<and>
           outcomes s1 = outcomes s \<and>
           markets s1 = (markets s)(req_marketId req \<mapsto>
                           market\<lparr>volume := volume market + req_amount req\<rparr>) \<and>
           redistribute (req_marketId req) (req_outcomeId req)
             (newProbability (req_type req) (probability outcome) (req_amount req)
                (volumeOr1 (volume market))) s1 = Some s'"
proof -
  from trades_POST_ok[OF assms] obtain uid market outcome where
    m: "markets s (req_marketId req) = Some market"
    and oc: "outcome_findFirst (req_outcomeId req) (req_marketId req) s = Some outcome"
    and tx: "tradeTx uid market outcome req s = Some s'" by blast
  from tradeTx_steps[OF tx] obtain s3 where
    s3: "outcomes s3 = outcomes s" "markets s3 = markets s"
    and i: "tradeImpact market outcome req s3 = Some s'" by blast
  from tradeImpact_steps[OF i] s3 m have
    r: "redistribute (req_marketId req) (req_outcomeId req)
             (newProbability (req_type req) (probability outcome) (req_amount req)
                (volumeOr1 (volume market)))
             (s3\<lparr>markets := (markets s)(req_marketId req \<mapsto>
                     market\<lparr>volume := volume market + req_amount req\<rparr>)\<rparr>) = Some s'" by auto
  let ?s1 = "s3\<lparr>markets := (markets s)(req_marketId req \<mapsto>
                     market\<lparr>volume := volume market + req_amount req\<rparr>)\<rparr>"
  have "outcomes ?s1 = outcomes s" using s3 by simp
  moreover have "markets ?s1 = (markets s)(req_marketId req \<mapsto>
                           market\<lparr>volume := volume market + req_amount req\<rparr>)" by simp
  ultimately show ?thesis using m oc r by blast
qed

lemma redistribute_markets: "redistribute m oid np s = Some s' \<Longrightarrow> markets s' = markets s"
  by (drule redistribute_outcomes) (erule ssubst, simp)

lemma updateHoldings_frame:
  assumes "updateHoldings u oid a p t s = Some s'"
  shows "outcomes s' = outcomes s \<and> markets s' = markets s \<and> users s' = users s \<and>
    orders s' = orders s \<and> trades s' = trades s \<and> transactions s' = transactions s"
  using assms
  by (auto simp: updateHoldings_def Let_def userOutcome_update_Some userOutcome_create_Some
      split: option.splits if_splits side.splits)

lemma settleFill_frame:
  assumes "settleFill uid maker oid t f p s = Some s'"
  shows "outcomes s' = outcomes s \<and> markets s' = markets s \<and>
    orders s' = orders s \<and> trades s' = trades s \<and> transactions s' = transactions s"
  using assms
  by (auto simp: settleFill_def bind_eq_Some_conv user_increment_balance_Some
      dest!: updateHoldings_frame split: if_splits)

lemma updateProbabilities_redistribute:
  assumes "updateProbabilities m oid amt t s = Some s'"
  shows "\<exists>oc mk. outcome_findUnique oid s = Some oc \<and> markets s m = Some mk \<and>
           redistribute m oid (newProbability t (probability oc) amt (volumeOr1 (volume mk))) s
             = Some s'"
  using assms by (auto simp: updateProbabilities_def split: option.splits)


lemma redistribute_formula:
  assumes r: "redistribute m oid np s1 = Some s'"
    and eq: "outcomes s1 = outcomes s"
    and n: "2 \<le> length (outcome_findMany m s)"
    and d: "distinct (map outcome_id (outcome_findMany m s))"
    and mem: "oid \<in> outcome_id ` set (outcome_findMany m s)"
  shows "outcome_findMany m s' = map (\<lambda>oc.
           if outcome_id oc = oid then oc\<lparr>probability := np\<rparr>
           else oc\<lparr>probability := toFixed4 (probability oc *
                      ((1 - np) / totalOtherProbability m oid s))\<rparr>) (outcome_findMany m s)
         \<and> totalOtherProbability m oid s \<noteq> 0
         \<and> \<bar>probabilitySum m s' - 1\<bar> \<le> (of_nat (length (outcome_findMany m s)) - 1) / 20000"
proof -
  note same = same_outcomes[OF eq]
  have n1: "2 \<le> length (outcome_findMany m s1)" "1 < length (outcome_findMany m s1)"
    using n by (simp_all add: same)
  have "Suc (length (otherOutcomes m oid s)) = length (outcome_findMany m s)"
    unfolding otherOutcomes_def using d mem by (rule length_others)
  then have "otherOutcomes m oid s1 \<noteq> []" using n by (auto simp: same)
  then have "totalOtherProbability m oid s1 \<noteq> 0"
    using redistribute_total_nonzero[OF r n1(2)] by simp
  moreover have "\<bar>probabilitySum m s' - 1\<bar> \<le> (of_nat (length (outcome_findMany m s1)) - 1) / 20000"
    using r n1(1) d mem by (intro redistribute_sum) (simp_all add: same)
  ultimately show ?thesis
    using redistribute_market[OF r n1(2)] by (simp add: same scaleFactor_def)
qed




lemma newProbability_buy_50: "newProbability BUY (1 / 2) 50 (volumeOr1 0) = 99 / 100"
  by code_simp

lemma impactFactor_50: "impactFactor 50 (volumeOr1 0) = 5"
  by (simp add: impactFactor_def volumeOr1_def)

lemma sibling_of_99: "toFixed4 (1 / 2 * ((1 - 99 / 100) / (1 / 2))) = 1 / 100"
  by code_simp

text \<open>
  Claim C9. A two-outcome market at 0.50/0.50 with volume 0 takes a BUY of 50 through the
  immediate path: the zero volume counts as 1, the impact factor is
  \<open>0.001 * (50 / 1) * 100 = 5\<close>, the new probability is \<open>min 0.99 (0.5 + 5 * 0.5) = 0.99\<close>,
  and the other outcome is rescaled to exactly 0.01.
\<close>

theorem two_outcome_buy_50_scenario:
  assumes post: "trades_POST session req s = (Inr (), s')"
    and buy: "req_type req = BUY" and fifty: "req_amount req = 50"
    and mk: "markets s (req_marketId req) = Some mk" and vol: "volume mk = 0"
    and two: "outcome_findMany (req_marketId req) s = [x, y]"
    and ids: "outcome_id x \<noteq> outcome_id y"
    and half: "probability x = 1 / 2" "probability y = 1 / 2"
  shows "volumeOr1 (volume mk) = 1 \<and>
         impactFactor (req_amount req) (volumeOr1 (volume mk)) = 1 / 1000 * (50 / 1) * 100 \<and>
         impactFactor (req_amount req) (volumeOr1 (volume mk)) = 5 \<and>
         newProbability BUY (1 / 2) (req_amount req) (volumeOr1 (volume mk))
           = min (99 / 100) (1 / 2 + 5 * (1 / 2)) \<and>
         outcome_findMany (req_marketId req) s' =
           [x\<lparr>probability := if outcome_id x = req_outcomeId req then 99 / 100 else 1 / 100\<rparr>,
            y\<lparr>probability := if outcome_id y = req_outcomeId req then 99 / 100 else 1 / 100\<rparr>]"
proof -
  let ?m = "req_marketId req" and ?oid = "req_outcomeId req"
  from trades_POST_redistribute[OF post] mk obtain outcome s1 where
    oc: "outcome_findFirst ?oid ?m s = Some outcome"
    and eq: "outcomes s1 = outcomes s"
    and r: "redistribute ?m ?oid (newProbability (req_type req) (probability outcome) (req_amount req)
                (volumeOr1 (volume mk))) s1 = Some s'" by auto
  have mem: "outcome \<in> set [x, y]" "outcome_id outcome = ?oid"
    using outcome_findFirst_member[OF oc] two by simp_all
  then have p: "probability outcome = 1 / 2" using half by auto
  have np: "newProbability (req_type req) (probability outcome) (req_amount req)
                (volumeOr1 (volume mk)) = 99 / 100"
    using newProbability_buy_50 by (simp add: p buy fifty vol)
  have d: "distinct (map outcome_id (outcome_findMany ?m s))" using two ids by simp
  have n: "2 \<le> length (outcome_findMany ?m s)" using two by simp
  have m2: "?oid \<in> outcome_id ` set (outcome_findMany ?m s)" using mem two by auto
  have tot: "totalOtherProbability ?m ?oid s = 1 / 2"
    using mem ids half by (auto simp: totalOtherProbability_def otherOutcomes_def two)
  have "outcome_findMany ?m s' = map (\<lambda>oc.
           if outcome_id oc = ?oid then oc\<lparr>probability := 99 / 100\<rparr>
           else oc\<lparr>probability := toFixed4 (probability oc *
                      ((1 - 99 / 100) / totalOtherProbability ?m ?oid s))\<rparr>) (outcome_findMany ?m s)"
    using redistribute_formula[OF r[unfolded np] eq n d m2] by simp
  then have "outcome_findMany ?m s' =
           [x\<lparr>probability := if outcome_id x = ?oid then 99 / 100 else 1 / 100\<rparr>,
            y\<lparr>probability := if outcome_id y = ?oid then 99 / 100 else 1 / 100\<rparr>]"
    using sibling_of_99 by (simp add: two tot half)
  moreover have "newProbability BUY (1 / 2) (req_amount req) (volumeOr1 (volume mk))
           = min (99 / 100) (1 / 2 + 5 * (1 / 2))"
    using newProbability_buy_50 by (simp add: fifty vol)
  ultimately show ?thesis
    by (simp add: fifty vol impactFactor_def volumeOr1_def)
qed

lemma w3: "outcome_findMany 10 market2 = [\<lparr>outcome_id = 11, outcome_marketId = 10, probability = 1 / 2, outcome_isResolved = False\<rparr>, \<lparr>outcome_id = 12, outcome_marketId = 10, probability = 1 / 2, outcome_isResolved = False\<rparr>]" by code_simp

theorem two_outcome_buy_50_scenario_witness:
  "trades_POST (Some 2) (buyRequest 50) market2 = (Inr (), market2AfterBuy) \<and>
   map probability (outcome_findMany 10 market2) = [1 / 2, 1 / 2] \<and>
   map probability (outcome_findMany 10 market2AfterBuy) = [99 / 100, 1 / 100]"
proof -
  let ?x = "\<lparr>outcome_id = 11, outcome_marketId = 10, probability = 1 / 2,
             outcome_isResolved = False\<rparr>"
  let ?y = "\<lparr>outcome_id = 12, outcome_marketId = 10, probability = 1 / 2,
             outcome_isResolved = False\<rparr>"
  have "fst (trades_POST (Some 2) (buyRequest 50) market2) = Inr ()" by code_simp
  then have post: "trades_POST (Some 2) (buyRequest 50) market2 = (Inr (), market2AfterBuy)"
    by (simp add: market2AfterBuy_def prod_eq_iff)
  have buy: "req_type (buyRequest 50) = BUY" and fifty: "req_amount (buyRequest 50) = 50"
    and rq: "req_marketId (buyRequest 50) = 10" "req_outcomeId (buyRequest 50) = 11"
    by (simp_all add: buyRequest_def)
  have mk: "markets market2 (req_marketId (buyRequest 50)) =
              Some \<lparr>volume = 0, isResolved = False, resolvedOutcomeId = None\<rparr>"
    unfolding rq by code_simp
  have two: "outcome_findMany (req_marketId (buyRequest 50)) market2 = [?x, ?y]"
    unfolding rq by code_simp
  from two_outcome_buy_50_scenario[OF post buy fifty mk _ two]
  have "outcome_findMany 10 market2AfterBuy =
          [?x\<lparr>probability := 99 / 100\<rparr>, ?y\<lparr>probability := 1 / 100\<rparr>]"
    by (simp add: rq)
  then have "map probability (outcome_findMany 10 market2AfterBuy) = [99 / 100, 1 / 100]"
    by simp
  moreover have "map probability (outcome_findMany 10 market2) = [1 / 2, 1 / 2]"
    using two by (simp add: rq)
  ultimately show ?thesis using post by simp
qed

text \<open>
  Claim C2 at its failing input. A three-outcome market is created at 1/3 each; a BUY of
  50 on the first outcome succeeds and leaves it clamped at 0.99, and the two siblings,
  which are rescaled and rounded but never clamped, at 0.005 each, below 0.01.
\<close>

theorem sibling_probability_below_floor:
  "map probability (outcome_findMany 10 market3) = [1 / 3, 1 / 3, 1 / 3] \<and>
   fst (trades_POST (Some 2) (buyRequest 50) market3) = Inr () \<and>
   map probability (outcome_findMany 10 market3AfterBuy) = [99 / 100, 1 / 200, 1 / 200] \<and>
   (1 / 200 :: rat) < 1 / 100"
  by code_simp

lemma find_map_preserve:
  "(\<And>x. P (g x) = P x) \<Longrightarrow> find P (map g xs) = map_option g (find P xs)"
  by (induction xs) auto









lemma balance_twice:
  "map_option (\<lambda>u. u\<lparr>balance := balance u + b\<rparr>) (map_option (\<lambda>u. u\<lparr>balance := balance u + a\<rparr>) x)
   = map_option (\<lambda>u::user. u\<lparr>balance := balance u + (a + b)\<rparr>) x"
  by (cases x) (simp_all add: add.assoc)

lemma payoutLoop_effect:
  assumes "payoutLoop w L s = Some s'"
  shows "(\<forall>uid. users s' uid = map_option (\<lambda>u. u\<lparr>balance := balance u +
            sum_list (map quantity (filter (\<lambda>h. holding_userId h = uid)
              (filter (\<lambda>h. quantity h > 0 \<and> holding_outcomeId h = w) L)))\<rparr>) (users s uid))
       \<and> holdings s' = map (\<lambda>h. if holding_id h \<in> holding_id ` set (filter (\<lambda>h. quantity h > 0) L)
                                then h\<lparr>quantity := 0\<rparr> else h) (holdings s)
       \<and> transactions s' = transactions s @
            map payoutRow (filter (\<lambda>h. quantity h > 0 \<and> holding_outcomeId h = w) L)
       \<and> orders s' = orders s \<and> markets s' = markets s \<and> outcomes s' = outcomes s"
  using assms
proof (induction L arbitrary: s)
  case Nil
  then show ?case by (auto simp: option.map_ident  split: option.splits intro!: ext)
next
  case (Cons h L)
  show ?case
  proof (cases "quantity h \<le> 0")
    case True
    then show ?thesis using Cons by simp
  next
    case False
    then have pos: "quantity h > 0" by simp
    from Cons.prems False obtain s1 s2 where
      s1: "payWinner w h s = Some s1"
      and s2: "userOutcome_update (holding_id h) (\<lambda>h. h\<lparr>quantity := 0\<rparr>) s1 = Some s2"
      and rest: "payoutLoop w L s2 = Some s'"
      by (auto simp: bind_eq_Some_conv)
    note IH = Cons.IH[OF rest]
    have u1: "\<forall>uid. users s1 uid = map_option (\<lambda>u. u\<lparr>balance := balance u +
            (if holding_userId h = uid \<and> holding_outcomeId h = w then quantity h else 0)\<rparr>) (users s uid)"
      using s1 by (auto simp: payWinner_def bind_eq_Some_conv user_increment_balance_Some
          transaction_create_def option.map_ident split: if_splits option.splits)
    have f1: "holdings s1 = holdings s \<and> orders s1 = orders s \<and> markets s1 = markets s
        \<and> outcomes s1 = outcomes s
        \<and> transactions s1 = transactions s @ (if holding_outcomeId h = w then [payoutRow h] else [])"
      using s1 by (auto simp: payWinner_def payoutRow_def bind_eq_Some_conv
          user_increment_balance_Some transaction_create_def split: if_splits)
    have f2: "users s2 = users s1 \<and> orders s2 = orders s1 \<and> markets s2 = markets s1
        \<and> outcomes s2 = outcomes s1 \<and> transactions s2 = transactions s1
        \<and> holdings s2 = map (\<lambda>x. if holding_id x = holding_id h then x\<lparr>quantity := 0\<rparr> else x) (holdings s1)"
      using s2 by (auto simp: userOutcome_update_Some)
    have users: "\<forall>uid. users s' uid = map_option (\<lambda>u. u\<lparr>balance := balance u +
            sum_list (map quantity (filter (\<lambda>h. holding_userId h = uid)
              (filter (\<lambda>h. quantity h > 0 \<and> holding_outcomeId h = w) (h # L))))\<rparr>) (users s uid)"
      using IH u1 f2 pos by (simp add: balance_twice)
    have hold: "holdings s' = map (\<lambda>x. if holding_id x \<in> holding_id ` set (filter (\<lambda>h. quantity h > 0) (h # L))
                                then x\<lparr>quantity := 0\<rparr> else x) (holdings s)"
      using IH f1 f2 pos by (auto simp: comp_def intro!: map_cong)
    have tx: "transactions s' = transactions s @
            map payoutRow (filter (\<lambda>h. quantity h > 0 \<and> holding_outcomeId h = w) (h # L))"
      using IH f1 f2 pos by simp
    show ?thesis using users hold tx IH f1 f2 by simp
  qed
qed


lemma refundLoop_effect:
  assumes "refundLoop L s = Some s'"
  shows "(\<forall>uid. users s' uid = map_option (\<lambda>u. u\<lparr>balance := balance u +
            sum_list (map (\<lambda>r. amount r - filled r) (filter (\<lambda>r. order_userId r = uid)
              (filter (\<lambda>r. order_type r = BUY \<and> amount r - filled r > 0) L)))\<rparr>) (users s uid))
       \<and> orders s' = map (\<lambda>r. if order_id r \<in> order_id ` set L
                                then r\<lparr>status := CANCELLED\<rparr> else r) (orders s)
       \<and> transactions s' = transactions s @
            map refundRow (filter (\<lambda>r. order_type r = BUY \<and> amount r - filled r > 0) L)
       \<and> holdings s' = holdings s \<and> markets s' = markets s \<and> outcomes s' = outcomes s"
  using assms
proof (induction L arbitrary: s)
  case Nil
  then show ?case by (auto simp: option.map_ident  split: option.splits)
next
  case (Cons r L)
  from Cons.prems obtain s1 s2 where
    s1: "refundOrder r s = Some s1"
    and s2: "order_update (order_id r) (\<lambda>r. r\<lparr>status := CANCELLED\<rparr>) s1 = Some s2"
    and rest: "refundLoop L s2 = Some s'"
    by (auto simp: bind_eq_Some_conv)
  note IH = Cons.IH[OF rest]
  have u1: "\<forall>uid. users s1 uid = map_option (\<lambda>u. u\<lparr>balance := balance u +
          (if order_userId r = uid \<and> order_type r = BUY \<and> amount r - filled r > 0
           then amount r - filled r else 0)\<rparr>) (users s uid)"
    using s1 by (auto simp: refundOrder_def bind_eq_Some_conv user_increment_balance_Some
        transaction_create_def option.map_ident split: if_splits option.splits)
  have f1: "holdings s1 = holdings s \<and> orders s1 = orders s \<and> markets s1 = markets s
      \<and> outcomes s1 = outcomes s
      \<and> transactions s1 = transactions s @
           (if order_type r = BUY \<and> amount r - filled r > 0 then [refundRow r] else [])"
    using s1 by (auto simp: refundOrder_def refundRow_def bind_eq_Some_conv
        user_increment_balance_Some transaction_create_def split: if_splits)
  have f2: "users s2 = users s1 \<and> holdings s2 = holdings s1 \<and> markets s2 = markets s1
      \<and> outcomes s2 = outcomes s1 \<and> transactions s2 = transactions s1
      \<and> orders s2 = map (\<lambda>x. if order_id x = order_id r then x\<lparr>status := CANCELLED\<rparr> else x) (orders s1)"
    using s2 by (auto simp: order_update_Some)
  have users: "\<forall>uid. users s' uid = map_option (\<lambda>u. u\<lparr>balance := balance u +
          sum_list (map (\<lambda>r. amount r - filled r) (filter (\<lambda>r. order_userId r = uid)
            (filter (\<lambda>r. order_type r = BUY \<and> amount r - filled r > 0) (r # L))))\<rparr>) (users s uid)"
    using IH u1 f2 by (auto simp add: balance_twice)
  have ord: "orders s' = map (\<lambda>x. if order_id x \<in> order_id ` set (r # L)
                              then x\<lparr>status := CANCELLED\<rparr> else x) (orders s)"
    using IH f1 f2 by (auto simp: comp_def intro!: map_cong)
  have tx: "transactions s' = transactions s @
          map refundRow (filter (\<lambda>r. order_type r = BUY \<and> amount r - filled r > 0) (r # L))"
    using IH f1 f2 by simp
  show ?case using users ord tx IH f1 f2 by simp
qed

lemma distinct_key_member:
  assumes "distinct (map f xs)" "x \<in> set xs"
  shows "f x \<in> f ` set (filter P xs) \<longleftrightarrow> P x"
proof
  assume "f x \<in> f ` set (filter P xs)"
  then obtain y where y: "y \<in> set xs" "P y" "f y = f x" by auto
  have "inj_on f (set xs)" using assms(1) by (simp add: distinct_map)
  then have "y = x" using y(1,3) assms(2) by (auto dest: inj_onD)
  with y show "P x" by simp
next
  assume "P x" then show "f x \<in> f ` set (filter P xs)" using assms(2) by auto
qed

lemma holdingInMarket_cong:
  assumes "outcomes s2 = map (\<lambda>oc. if outcome_id oc = w then g oc else oc) (outcomes s)"
    and "\<And>oc. outcome_id (g oc) = outcome_id oc \<and> outcome_marketId (g oc) = outcome_marketId oc"
  shows "holdingInMarket m s2 h = holdingInMarket m s h"
proof -
  let ?k = "\<lambda>oc. if outcome_id oc = w then g oc else oc"
  have "find (\<lambda>oc. outcome_id oc = holding_outcomeId h) (map ?k (outcomes s))
      = map_option ?k (find (\<lambda>oc. outcome_id oc = holding_outcomeId h) (outcomes s))"
    by (rule find_map_preserve) (simp add: assms(2))
  then show ?thesis
    unfolding holdingInMarket_def outcome_findUnique_def assms(1)
    by (auto simp: assms(2) split: option.splits)
qed

lemma markets_PATCH_ok:
  assumes "markets_PATCH session m body s = (Inr (), s')"
  shows "\<exists>uid user mk w outcome. session = Some uid \<and> users s uid = Some user \<and>
           markets s m = Some mk \<and> isAdmin user \<and> \<not> isResolved mk \<and> body = Some w \<and>
           outcome_findFirst w m s = Some outcome \<and> resolveTx m w s = Some s'"
  using assms
  by (auto simp: markets_PATCH_def split: option.splits if_splits)

lemma resolveTx_steps:
  assumes "resolveTx m w s = Some s'"
  obtains mk s2 s3 where "markets s m = Some mk"
    "s2 = s\<lparr>markets := (markets s)(m \<mapsto> mk\<lparr>isResolved := True, resolvedOutcomeId := Some w\<rparr>),
            outcomes := map (\<lambda>oc. if outcome_id oc = w then oc\<lparr>outcome_isResolved := True\<rparr> else oc)
                          (outcomes s)\<rparr>"
    "payoutLoop w (filter (\<lambda>h. holdingInMarket m s2 h \<and> quantity h > 0) (holdings s2)) s2 = Some s3"
    "refundLoop (filter (\<lambda>r. order_marketId r = m \<and> status r = OPEN) (orders s3)) s3 = Some s'"
  using assms
  by (auto simp: resolveTx_def bind_eq_Some_conv outcome_update_Some split: option.splits)

lemma resolveTx_effect:
  assumes tx: "resolveTx m w s = Some s'"
    and dh: "distinct (map holding_id (holdings s))"
    and dor: "distinct (map order_id (orders s))"
    and wf: "list_all (\<lambda>r. status r = OPEN \<longrightarrow> filled r < amount r) (orders s)"
  shows "(\<forall>uid. users s' uid = map_option (\<lambda>u. u\<lparr>balance := balance u +
              (payoutOwed uid m w s + refundOwed uid m s)\<rparr>) (users s uid)) \<and>
    holdings s' = map (\<lambda>h. if holdingInMarket m s h \<and> quantity h > 0
                           then h\<lparr>quantity := 0\<rparr> else h) (holdings s) \<and>
    orders s' = map (\<lambda>r. if order_marketId r = m \<and> status r = OPEN
                         then r\<lparr>status := CANCELLED\<rparr> else r) (orders s) \<and>
    transactions s' = transactions s @ map payoutRow (winningHoldings m w s)
                        @ map refundRow (openBuyOrders m s) \<and>
    (\<exists>mk. markets s m = Some mk \<and>
          markets s' = (markets s)(m \<mapsto> mk\<lparr>isResolved := True, resolvedOutcomeId := Some w\<rparr>))"
proof -
  from tx obtain mk s2 s3 where mk: "markets s m = Some mk"
    and s2: "s2 = s\<lparr>markets := (markets s)(m \<mapsto> mk\<lparr>isResolved := True, resolvedOutcomeId := Some w\<rparr>),
            outcomes := map (\<lambda>oc. if outcome_id oc = w then oc\<lparr>outcome_isResolved := True\<rparr> else oc)
                          (outcomes s)\<rparr>"
    and p: "payoutLoop w (filter (\<lambda>h. holdingInMarket m s2 h \<and> quantity h > 0) (holdings s2)) s2 = Some s3"
    and r: "refundLoop (filter (\<lambda>r. order_marketId r = m \<and> status r = OPEN) (orders s3)) s3 = Some s'"
    by (rule resolveTx_steps)
  have him: "\<And>h. holdingInMarket m s2 h = holdingInMarket m s h"
    by (rule holdingInMarket_cong[where w = w and g = "\<lambda>oc. oc\<lparr>outcome_isResolved := True\<rparr>"])
       (simp_all add: s2)
  let ?L1 = "filter (\<lambda>h. holdingInMarket m s h \<and> quantity h > 0) (holdings s)"
  have f2: "holdings s2 = holdings s" "orders s2 = orders s" "users s2 = users s"
    "transactions s2 = transactions s"
    "markets s2 = (markets s)(m \<mapsto> mk\<lparr>isResolved := True, resolvedOutcomeId := Some w\<rparr>)"
    by (simp_all add: s2)
  have L1: "filter (\<lambda>h. holdingInMarket m s2 h \<and> quantity h > 0) (holdings s2) = ?L1"
    by (simp only: him f2)
  note P = payoutLoop_effect[OF p[unfolded L1]]
  let ?L2 = "filter (\<lambda>r. order_marketId r = m \<and> status r = OPEN) (orders s)"
  have L2: "filter (\<lambda>r. order_marketId r = m \<and> status r = OPEN) (orders s3) = ?L2"
    using P by (simp add: f2)
  note R = refundLoop_effect[OF r[unfolded L2]]
  have win: "filter (\<lambda>h. quantity h > 0 \<and> holding_outcomeId h = w) ?L1 = winningHoldings m w s"
    by (auto simp: winningHoldings_def intro!: filter_cong)
  have "\<And>r. r \<in> set (orders s) \<Longrightarrow> status r = OPEN \<Longrightarrow> amount r - filled r > 0"
    using wf by (auto simp: list_all_iff)
  then have buy: "filter (\<lambda>r. order_type r = BUY \<and> amount r - filled r > 0) ?L2 = openBuyOrders m s"
    by (auto simp: openBuyOrders_def intro!: filter_cong)
  have users: "\<forall>uid. users s' uid = map_option (\<lambda>u. u\<lparr>balance := balance u +
              (payoutOwed uid m w s + refundOwed uid m s)\<rparr>) (users s uid)"
    using P R unfolding win buy by (simp add: balance_twice payoutOwed_def refundOwed_def f2)
  have hold: "holdings s' = map (\<lambda>h. if holdingInMarket m s h \<and> quantity h > 0
                           then h\<lparr>quantity := 0\<rparr> else h) (holdings s)"
  proof -
    have "holdings s' = map (\<lambda>h. if holding_id h \<in> holding_id ` set (filter (\<lambda>h. quantity h > 0) ?L1)
                                then h\<lparr>quantity := 0\<rparr> else h) (holdings s)"
      using P R by (simp add: f2)
    also have "filter (\<lambda>h. quantity h > 0) ?L1 = ?L1" by (auto intro!: filter_True)
    finally show ?thesis
      using distinct_key_member[OF dh, where P = "\<lambda>h. holdingInMarket m s h \<and> quantity h > 0"]
      by (auto intro!: map_cong)
  qed
  have ord: "orders s' = map (\<lambda>r. if order_marketId r = m \<and> status r = OPEN
                         then r\<lparr>status := CANCELLED\<rparr> else r) (orders s)"
  proof -
    have "orders s' = map (\<lambda>r. if order_id r \<in> order_id ` set ?L2
                                then r\<lparr>status := CANCELLED\<rparr> else r) (orders s)"
      using P R by (simp add: f2)
    then show ?thesis
      using distinct_key_member[OF dor, where P = "\<lambda>r. order_marketId r = m \<and> status r = OPEN"]
      by (auto intro!: map_cong)
  qed
  have tx: "transactions s' = transactions s @ map payoutRow (winningHoldings m w s)
                        @ map refundRow (openBuyOrders m s)"
    using P R unfolding win buy by (simp add: f2)
  have "markets s' = (markets s)(m \<mapsto> mk\<lparr>isResolved := True, resolvedOutcomeId := Some w\<rparr>)"
    using P R by (simp add: f2)
  with users hold ord tx mk show ?thesis by blast
qed

text \<open>
  Claim C3. A successful resolution of market \<open>m\<close> for outcome \<open>w\<close>, on a store whose
  holding ids and order ids are primary keys and whose OPEN orders are not yet filled
  whole, adds to every user's balance the quantities of the user's positive winning
  holdings (each logged as \<open>MARKET_RESOLUTION_PAYOUT\<close>) and what is left, \<open>amount - filled\<close>,
  of the user's OPEN BUY orders in the market (each logged as \<open>ORDER_REFUND\<close>), and nothing
  else, so that a losing holding is paid nothing; it zeroes every positive holding of
  the market, marks every OPEN order of the market CANCELLED, and a further resolution
  request by any administrator fails with \<open>AlreadyResolved\<close> and leaves the store as it is.
\<close>

theorem resolve_market_settlement:
  assumes ok: "markets_PATCH session m (Some w) s = (Inr (), s')"
    and dh: "distinct (map holding_id (holdings s))"
    and dor: "distinct (map order_id (orders s))"
    and wf: "list_all (\<lambda>r. status r = OPEN \<longrightarrow> filled r < amount r) (orders s)"
  shows "(\<forall>uid. users s' uid = map_option (\<lambda>u. u\<lparr>balance := balance u +
              (payoutOwed uid m w s + refundOwed uid m s)\<rparr>) (users s uid)) \<and>
    holdings s' = map (\<lambda>h. if holdingInMarket m s h \<and> quantity h > 0
                           then h\<lparr>quantity := 0\<rparr> else h) (holdings s) \<and>
    orders s' = map (\<lambda>r. if order_marketId r = m \<and> status r = OPEN
                         then r\<lparr>status := CANCELLED\<rparr> else r) (orders s) \<and>
    transactions s' = transactions s @ map payoutRow (winningHoldings m w s)
                        @ map refundRow (openBuyOrders m s) \<and>
    (\<forall>admin a body. users s' admin = Some a \<and> isAdmin a \<longrightarrow>
       markets_PATCH (Some admin) m body s' = (Inl AlreadyResolved, s'))"
proof -
  from markets_PATCH_ok[OF ok] have tx: "resolveTx m w s = Some s'" by auto
  note E = resolveTx_effect[OF tx dh dor wf]
  then obtain mk :: market where
    "markets s' = (markets s)(m \<mapsto> mk\<lparr>isResolved := True, resolvedOutcomeId := Some w\<rparr>)"
    by blast
  then have "\<forall>admin a body. users s' admin = Some a \<and> isAdmin a \<longrightarrow>
       markets_PATCH (Some admin) m body s' = (Inl AlreadyResolved, s')"
    by (simp add: markets_PATCH_def)
  with E show ?thesis by blast
qed

theorem resolve_market_settlement_witness:
  "markets_PATCH (Some 1) 10 (Some 11) holders = (Inr (), resolved) \<and>
   map (\<lambda>h. (holding_userId h, holding_outcomeId h, quantity h)) (holdings holders)
     = [(2, 11, 40), (3, 12, 25)] \<and>
   map_option balance (users holders 2) = Some 980 \<and>
   map_option balance (users resolved 2) = Some (980 + 40) \<and>
   map_option balance (users holders 3) = Some (3599 / 4) \<and>
   map_option balance (users resolved 3) = Some (3599 / 4 + 100) \<and>
   map quantity (holdings resolved) = [0, 0] \<and>
   map status (orders resolved) = [CANCELLED] \<and>
   markets_PATCH (Some 1) 10 (Some 11) resolved = (Inl AlreadyResolved, resolved)"
proof -
  have "fst (markets_PATCH (Some 1) 10 (Some 11) holders) = Inr ()" by code_simp
  then have ok: "markets_PATCH (Some 1) 10 (Some 11) holders = (Inr (), resolved)"
    by (simp add: resolved_def prod_eq_iff)
  have dh: "distinct (map holding_id (holdings holders))" by code_simp
  have dor: "distinct (map order_id (orders holders))" by code_simp
  have wf: "list_all (\<lambda>r. status r = OPEN \<longrightarrow> filled r < amount r) (orders holders)"
    by code_simp
  note T = resolve_market_settlement[OF ok dh dor wf]
  have u2: "users holders 2 = Some \<lparr>balance = 980, isAdmin = False\<rparr>" by code_simp
  have u3: "users holders 3 = Some \<lparr>balance = 3599 / 4, isAdmin = False\<rparr>" by code_simp
  have owed: "payoutOwed 2 10 11 holders = 40" "refundOwed 2 10 holders = 0"
    "payoutOwed 3 10 11 holders = 0" "refundOwed 3 10 holders = 100" by code_simp+
  have b2: "map_option balance (users resolved 2) = Some (980 + 40)"
    using T u2 owed by simp
  have b3: "map_option balance (users resolved 3) = Some (3599 / 4 + 100)"
    using T u3 owed by simp
  have hs: "holdings holders =
      [\<lparr>holding_id = 13, holding_userId = 2, holding_outcomeId = 11, quantity = 40, avgPrice = 1 / 2\<rparr>,
       \<lparr>holding_id = 14, holding_userId = 3, holding_outcomeId = 12, quantity = 25, avgPrice = 1 / 100\<rparr>]"
    by code_simp
  have inm: "holdingInMarket 10 holders
      \<lparr>holding_id = 13, holding_userId = 2, holding_outcomeId = 11, quantity = 40, avgPrice = 1 / 2\<rparr>"
    "holdingInMarket 10 holders
      \<lparr>holding_id = 14, holding_userId = 3, holding_outcomeId = 12, quantity = 25, avgPrice = 1 / 100\<rparr>"
    by code_simp+
  have q: "map quantity (holdings resolved) = [0, 0]"
    using T inm by (simp add: hs)
  have os: "map (\<lambda>r. (order_marketId r, status r)) (orders holders) = [(10, OPEN)]" by code_simp
  have st: "map status (orders resolved) = [CANCELLED]"
    using T os by (auto simp: map_eq_Cons_conv)
  have u1: "users holders 1 = Some \<lparr>balance = 1000, isAdmin = True\<rparr>" by code_simp
  from T have "users resolved 1 = map_option (\<lambda>u. u\<lparr>balance := balance u +
              (payoutOwed 1 10 11 holders + refundOwed 1 10 holders)\<rparr>) (users holders 1)"
    by blast
  then have "users resolved 1 = Some \<lparr>balance = 1000 +
              (payoutOwed 1 10 11 holders + refundOwed 1 10 holders), isAdmin = True\<rparr>"
    unfolding u1 by simp
  moreover have "isAdmin \<lparr>balance = 1000 +
              (payoutOwed 1 10 11 holders + refundOwed 1 10 holders), isAdmin = True\<rparr>" by simp
  ultimately have again:
    "markets_PATCH (Some 1) 10 (Some 11) resolved = (Inl AlreadyResolved, resolved)"
    using T by blast
  show ?thesis using ok b2 b3 q st again u2 u3 hs by simp
qed

lemma updateProbabilities_frame:
  assumes "updateProbabilities m oid a t s = Some s'"
  shows "users s' = users s \<and> orders s' = orders s \<and> trades s' = trades s \<and>
         transactions s' = transactions s \<and> holdings s' = holdings s \<and> markets s' = markets s"
proof -
  from updateProbabilities_redistribute[OF assms] obtain np where
    "redistribute m oid np s = Some s'" by blast
  from redistribute_outcomes[OF this] show ?thesis by (erule_tac ssubst) simp
qed

lemma settleFill_users:
  assumes "settleFill uid maker oid t f p s = Some s'"
  shows "\<forall>x. users s' x = map_option (\<lambda>u. u\<lparr>balance := balance u +
           (if t = BUY
            then (if x = uid then - (f * p) else 0) + (if x = maker then f * p else 0)
            else (if x = uid then f * p else 0) + (if x = maker then - (f * p) else 0))\<rparr>)
          (users s x)"
proof -
  from assms obtain b c where
    b: "users b = users s"
    and c: "user_increment_balance uid (if t = BUY then - (f * p) else f * p) b = Some c"
    and d: "user_increment_balance maker (if t = BUY then f * p else - (f * p)) c = Some s'"
    by (auto simp: settleFill_def bind_eq_Some_conv dest!: updateHoldings_frame split: if_splits)
  have c': "\<forall>x. users c x = map_option (\<lambda>u. u\<lparr>balance := balance u +
              (if x = uid then (if t = BUY then - (f * p) else f * p) else 0)\<rparr>) (users s x)"
    using c b by (auto simp: user_increment_balance_Some option.map_ident split: option.splits)
  have d': "\<forall>x. users s' x = map_option (\<lambda>u. u\<lparr>balance := balance u +
              (if x = maker then (if t = BUY then f * p else - (f * p)) else 0)\<rparr>) (users c x)"
    using d by (auto simp: user_increment_balance_Some option.map_ident split: option.splits)
  show ?thesis
    unfolding d'[rule_format] c'[rule_format] balance_twice by (auto intro!: option.map_cong)
qed


lemma fillOrder_effect:
  assumes "fillOrder uid m oid t r f s = Some s'"
  shows "orders s' = applyFill r f (orders s) \<and>
         trades s' = trades s @ fillTrades uid m oid t r f \<and>
         (\<forall>x. users s' x = map_option (\<lambda>u. u\<lparr>balance := balance u + fillDelta t uid r f x\<rparr>)
                  (users s x))"
proof -
  from assms obtain s1 s4 s7 where
    o: "order_update (order_id r) (\<lambda>x. x\<lparr>filled := filled x + f,
            status := (if amount r - filled r \<le> f then FILLED else OPEN)\<rparr>) s = Some s1"
    and x: "settleFill uid (order_userId r) oid t f (price r)
              (s1\<lparr>trades := trades s1 @ fillTrades uid m oid t r f\<rparr>) = Some s4"
    and v: "market_increment_volume m f
              (recordTransaction (order_userId r) (f * price r) (if t = BUY then 1 else - 1)
                (recordTransaction uid (f * price r) (if t = BUY then - 1 else 1) s4)) = Some s7"
    and p: "updateProbabilities m oid f t s7 = Some s'"
    unfolding fillOrder_def Let_def by (auto simp: bind_eq_Some_conv)
  have s1: "orders s1 = applyFill r f (orders s) \<and> trades s1 = trades s \<and> users s1 = users s"
    using o by (auto simp: order_update_Some applyFill_def)
  have s4: "orders s4 = applyFill r f (orders s) \<and> trades s4 = trades s @ fillTrades uid m oid t r f"
    using settleFill_frame[OF x] s1 by simp
  have u4: "\<forall>x. users s4 x = map_option (\<lambda>u. u\<lparr>balance := balance u + fillDelta t uid r f x\<rparr>)
                  (users s x)"
    using settleFill_users[OF x] s1 by (simp add: fillDelta_def)
  have s7: "orders s7 = orders s4 \<and> trades s7 = trades s4 \<and> users s7 = users s4"
    using v by (auto simp: market_increment_volume_Some recordTransaction_def transaction_create_def)
  show ?thesis using updateProbabilities_frame[OF p] s7 s4 u4 by simp
qed

lemma matchLoop_effect:
  assumes "matchLoop uid m oid t L remaining filledAmount matched s = Some (filled', matched', s')"
  shows "filled' = filledAmount + sum_list (map snd (fillPlan remaining L)) \<and>
         matched' = matched @ map (\<lambda>(r, f). order_id r) (fillPlan remaining L) \<and>
         orders s' = applyFills (fillPlan remaining L) (orders s) \<and>
         trades s' = trades s @ planTrades uid m oid t (fillPlan remaining L) \<and>
         (\<forall>x. users s' x = map_option (\<lambda>u. u\<lparr>balance := balance u +
                   planDelta t uid (fillPlan remaining L) x\<rparr>) (users s x))"
  using assms
proof (induction L arbitrary: remaining filledAmount matched s)
  case Nil
  then show ?case by (simp add: planTrades_def planDelta_def option.map_ident)
next
  case (Cons r L)
  show ?case
  proof (cases "remaining \<le> 0")
    case True
    then show ?thesis using Cons.prems by (simp add: planTrades_def planDelta_def option.map_ident)
  next
    case False
    note rem = this
    show ?thesis
    proof (cases "amount r - filled r \<le> 0")
      case True
      then show ?thesis using Cons.prems rem Cons.IH by (simp add: Let_def)
    next
      case False
      let ?f = "min remaining (amount r - filled r)"
      from Cons.prems rem False obtain s1 where
        f: "fillOrder uid m oid t r ?f s = Some s1"
        and rest: "matchLoop uid m oid t L (remaining - ?f) (filledAmount + ?f)
                     (matched @ [order_id r]) s1 = Some (filled', matched', s')"
        by (auto simp: Let_def split: option.splits)
      note E = fillOrder_effect[OF f]
      note IH = Cons.IH[OF rest]
      have plan: "fillPlan remaining (r # L) = (r, ?f) # fillPlan (remaining - ?f) L"
        using rem False by simp
      have users: "\<forall>x. users s' x = map_option (\<lambda>u. u\<lparr>balance := balance u +
                   planDelta t uid (fillPlan remaining (r # L)) x\<rparr>) (users s x)"
        unfolding plan using IH E by (simp add: balance_twice planDelta_def)
      show ?thesis
        unfolding plan using IH E users[unfolded plan]
        by (simp add: planTrades_def add.assoc)
    qed
  qed
qed

lemma opposite_neq [simp]: "opposite t \<noteq> t" "t \<noteq> opposite t"
  by (cases t; simp add: opposite_def)+

lemma opposite_opposite [simp]: "opposite (opposite t) = t"
  by (cases t) (simp_all add: opposite_def)

lemma fillPlan_members:
  "list_all (\<lambda>(r, f). r \<in> set L \<and> 0 < f \<and> f \<le> amount r - filled r) (fillPlan remaining L)"
proof (induction L arbitrary: remaining)
  case Nil
  then show ?case by simp
next
  case (Cons r L)
  have "list_all (\<lambda>(x, f). x \<in> set (r # L) \<and> 0 < f \<and> f \<le> amount x - filled x) (fillPlan rem' L)"
    for rem'
    using Cons.IH[of rem'] by (auto simp: list_all_iff)
  then show ?case by (auto simp: list_all_iff)
qed

lemma fillPlan_total: "0 \<le> remaining \<Longrightarrow> sum_list (map snd (fillPlan remaining L)) \<le> remaining"
proof (induction L arbitrary: remaining)
  case Nil
  then show ?case by simp
next
  case (Cons r L)
  show ?case
  proof (cases "remaining \<le> 0 \<or> amount r - filled r \<le> 0")
    case True
    then show ?thesis using Cons by auto
  next
    case False
    let ?f = "min remaining (amount r - filled r)"
    have "0 \<le> remaining - ?f" by simp
    from Cons.IH[OF this] show ?thesis using False by simp
  qed
qed

lemma matchingOrders_set:
  "set (matchingOrders m oid t s) =
     {r \<in> set (orders s). order_marketId r = m \<and> order_outcomeId r = oid
        \<and> order_type r = opposite t \<and> status r = OPEN}"
  by (auto simp: matchingOrders_def Let_def)



lemma matchingOrders_new:
  assumes "order_type n = t"
  shows "matchingOrders m oid t (s\<lparr>orders := orders s @ [n], nextId := k\<rparr>) = matchingOrders m oid t s"
  using assms by (simp add: matchingOrders_def Let_def)

lemma applyFills_ids: "map order_id (applyFills plan rows) = map order_id rows"
  by (induction plan arbitrary: rows) (auto simp: applyFill_def comp_def if_distrib cong: if_cong)

lemma applyFills_append:
  assumes "list_all (\<lambda>(r, f). order_id r \<noteq> order_id n) plan"
  shows "applyFills plan (rows @ [n]) = applyFills plan rows @ [n]"
  using assms by (induction plan arbitrary: rows) (auto simp: applyFill_def)

lemma orders_POST_ok:
  assumes "orders_POST session req s = (Inr res, s')"
  shows "\<exists>uid user mk outcome. session = Some uid \<and> users s uid = Some user \<and>
           0 < oreq_amount req \<and> markets s (oreq_marketId req) = Some mk \<and>
           outcome_findFirst (oreq_outcomeId req) (oreq_marketId req) s = Some outcome \<and>
           (oreq_orderType req = LIMIT \<longrightarrow> oreq_price req \<noteq> None) \<and>
           orderTx uid req (if oreq_orderType req = MARKET then probability outcome
                            else (case oreq_price req of Some x \<Rightarrow> x | None \<Rightarrow> 0)) s
             = Some (res, s')"
  using assms
  by (auto simp: orders_POST_def Let_def split: option.splits if_splits)

lemma orderTx_market:
  assumes tx: "orderTx uid req prc s = Some (res, s')"
    and mk: "oreq_orderType req = MARKET"
    and fresh: "list_all (\<lambda>r. order_id r \<noteq> nextId s) (orders s)"
  defines "plan \<equiv> fillPlan (oreq_amount req)
                    (matchingOrders (oreq_marketId req) (oreq_outcomeId req) (oreq_type req) s)"
  defines "filledTotal \<equiv> sum_list (map snd plan)"
  shows "res_order res =
           \<lparr>order_id = nextId s, order_userId = uid, order_marketId = oreq_marketId req,
            order_outcomeId = oreq_outcomeId req, order_type = oreq_type req,
            orderType = MARKET, amount = oreq_amount req, price = prc, filled = filledTotal,
            status = (if filledTotal \<ge> oreq_amount req then FILLED else OPEN)\<rparr> \<and>
         res_matchedOrders res = map (\<lambda>(r, f). order_id r) plan \<and>
         res_fullyFilled res = (filledTotal \<ge> oreq_amount req) \<and>
         orders s' = applyFills plan (orders s) @ [res_order res] \<and>
         trades s' = trades s @ planTrades uid (oreq_marketId req) (oreq_outcomeId req)
                                  (oreq_type req) plan \<and>
         (\<forall>x. users s' x = map_option (\<lambda>u. u\<lparr>balance := balance u +
                   planDelta (oreq_type req) uid plan x\<rparr>) (users s x))"
proof -
  let ?m = "oreq_marketId req" and ?oid = "oreq_outcomeId req" and ?t = "oreq_type req"
    and ?amt = "oreq_amount req"
  let ?n = "\<lparr>order_id = nextId s, order_userId = uid, order_marketId = ?m,
            order_outcomeId = ?oid, order_type = ?t,
            orderType = oreq_orderType req, amount = ?amt, price = prc, filled = 0,
            status = OPEN\<rparr>"
  let ?s1 = "s\<lparr>orders := orders s @ [?n], nextId := Suc (nextId s)\<rparr>"
  from tx mk obtain filledAmount matched s2 where
    loop: "matchLoop uid ?m ?oid ?t (matchingOrders ?m ?oid ?t ?s1) ?amt 0 [] ?s1
             = Some (filledAmount, matched, s2)"
    and upd: "order_update (nextId s)
               (\<lambda>r. r\<lparr>filled := filledAmount,
                       status := (if filledAmount \<ge> ?amt then FILLED else OPEN)\<rparr>) s2 = Some s'"
    and res: "res = \<lparr>res_order = ?n\<lparr>filled := filledAmount,
                                  status := (if filledAmount \<ge> ?amt then FILLED else OPEN)\<rparr>,
                    res_matchedOrders = matched,
                    res_fullyFilled = (filledAmount \<ge> ?amt)\<rparr>"
    unfolding orderTx_def Let_def by (auto simp: bind_eq_Some_conv)
  have mo: "matchingOrders ?m ?oid ?t ?s1 = matchingOrders ?m ?oid ?t s"
    by (rule matchingOrders_new) simp
  note E = matchLoop_effect[OF loop[unfolded mo], folded plan_def]
  have fa: "filledAmount = filledTotal" using E by (simp add: filledTotal_def)
  have "list_all (\<lambda>(r, f). r \<in> set (matchingOrders ?m ?oid ?t s)) plan"
    using fillPlan_members[of "matchingOrders ?m ?oid ?t s" ?amt]
    unfolding plan_def by (auto simp: list_all_iff)
  then have "list_all (\<lambda>(r, f). order_id r \<noteq> order_id ?n) plan"
    using fresh by (auto simp: list_all_iff matchingOrders_set)
  then have o2: "orders s2 = applyFills plan (orders s) @ [?n]"
    using E applyFills_append[of ?n plan "orders s"] by simp
  have ids: "list_all (\<lambda>r. order_id r \<noteq> nextId s) (applyFills plan (orders s))"
  proof -
    have "map order_id (applyFills plan (orders s)) = map order_id (orders s)"
      by (rule applyFills_ids)
    then have "order_id ` set (applyFills plan (orders s)) = order_id ` set (orders s)"
      by (metis list.set_map)
    moreover have "nextId s \<notin> order_id ` set (orders s)"
      using fresh by (auto simp: list_all_iff)
    ultimately have "nextId s \<notin> order_id ` set (applyFills plan (orders s))" by simp
    then show ?thesis unfolding list_all_iff by (metis imageI)
  qed
  have keep: "map (\<lambda>r. if order_id r = nextId s then g r else r) (applyFills plan (orders s))
        = applyFills plan (orders s)" for g
    using ids by (auto simp: list_all_iff intro!: map_idI)
  have o': "orders s' = applyFills plan (orders s) @ [res_order res]"
    using upd o2 by (auto simp: order_update_Some keep res)
  have rest: "trades s' = trades s2 \<and> users s' = users s2"
    using upd by (auto simp: order_update_Some)
  show ?thesis using o' E rest fa by (simp add: res mk)
qed





lemma order_findUnique_id: "order_findUnique oid s = Some ord \<Longrightarrow> order_id ord = oid"
  by (auto simp: order_findUnique_def find_Some_iff)

lemma orders_DELETE_effect:
  assumes ok: "orders_DELETE (Some uid) oid s = (Inr (), s')"
    and ord: "order_findUnique oid s = Some ord"
  shows "status ord = OPEN \<and>
    (\<forall>x. users s' x = map_option (\<lambda>u. u\<lparr>balance := balance u +
            (if x = uid \<and> order_type ord = BUY \<and> filled ord < amount ord
             then amount ord - filled ord else 0)\<rparr>) (users s x)) \<and>
    orders s' = map (\<lambda>r. if order_id r = oid then r\<lparr>status := CANCELLED\<rparr> else r) (orders s) \<and>
    transactions s' = transactions s @
      (if order_type ord = BUY \<and> filled ord < amount ord
       then [\<lparr>transaction_userId = uid, transaction_amount = amount ord - filled ord,
              transaction_type = ''ORDER_CANCEL_REFUND'', transaction_metadata = None\<rparr>]
       else [])"
proof -
  from ok ord have st: "status ord = OPEN" and tx: "cancelTx uid ord s = Some s'"
    by (auto simp: orders_DELETE_def split: option.splits if_splits)
  from tx obtain s1 where
    s1: "s1 = s\<lparr>orders := map (\<lambda>r. if order_id r = oid then r\<lparr>status := CANCELLED\<rparr> else r)
                               (orders s)\<rparr>"
    and r: "(if order_type ord = BUY \<and> amount ord - filled ord > 0 then
              do { s2 \<leftarrow> user_increment_balance uid (amount ord - filled ord) s1;
                   Some (transaction_create \<lparr>transaction_userId = uid,
                       transaction_amount = amount ord - filled ord,
                       transaction_type = ''ORDER_CANCEL_REFUND'',
                       transaction_metadata = None\<rparr> s2) }
            else Some s1) = Some s'"
    by (auto simp: cancelTx_def bind_eq_Some_conv order_update_Some Let_def
        order_findUnique_id[OF ord] split: if_splits)
  show ?thesis
  proof (cases "order_type ord = BUY \<and> filled ord < amount ord")
    case True
    with r obtain u where "users s1 uid = Some u"
      "s' = s1\<lparr>users := (users s1)(uid \<mapsto> u\<lparr>balance := balance u + (amount ord - filled ord)\<rparr>),
              transactions := transactions s1 @ [\<lparr>transaction_userId = uid,
                transaction_amount = amount ord - filled ord,
                transaction_type = ''ORDER_CANCEL_REFUND'', transaction_metadata = None\<rparr>]\<rparr>"
      by (auto simp: bind_eq_Some_conv user_increment_balance_Some transaction_create_def)
    then show ?thesis using True st by (auto simp: s1 option.map_ident)
  next
    case False
    with r have "s' = s1" by (auto split: if_splits)
    then show ?thesis using False st by (auto simp: s1 option.map_ident)
  qed
qed

lemma orderTx_limit_buy:
  assumes "orderTx uid req prc s = Some (res, s')"
    and "oreq_orderType req = LIMIT" "oreq_type req = BUY"
  shows "\<forall>x. users s' x = map_option (\<lambda>u. u\<lparr>balance := balance u +
            (if x = uid then - oreq_amount req else 0)\<rparr>) (users s x)"
  using assms
  by (auto simp: orderTx_def Let_def bind_eq_Some_conv user_increment_balance_Some
      transaction_create_def option.map_ident)

lemma planDelta_taker:
  assumes "list_all (\<lambda>(r, f). order_userId r \<noteq> uid) plan"
  shows "planDelta BUY uid plan uid = - sum_list (map (\<lambda>(r, f). f * price r) plan)"
  using assms by (induction plan) (auto simp: planDelta_def fillDelta_def)


lemma find_last_fresh:
  assumes "list_all (\<lambda>r. \<not> P r) rows" "P n"
  shows "find P (rows @ [n]) = Some n"
  using assms by (induction rows) auto

lemma market_buy_debit:
  assumes ok: "orders_POST (Some uid) req s = (Inr res, s')"
    and buy: "oreq_type req = BUY" and mk: "oreq_orderType req = MARKET"
    and u: "users s uid = Some u"
    and fresh: "list_all (\<lambda>r. order_id r \<noteq> nextId s) (orders s)"
    and noself: "list_all (\<lambda>(r, f). order_userId r \<noteq> uid)
           (fillPlan (oreq_amount req)
              (matchingOrders (oreq_marketId req) (oreq_outcomeId req) BUY s))"
  shows "users s' uid = Some (u\<lparr>balance := balance u -
           sum_list (map (\<lambda>(r, f). f * price r)
             (fillPlan (oreq_amount req)
                (matchingOrders (oreq_marketId req) (oreq_outcomeId req) BUY s)))\<rparr>) \<and>
         order_findUnique (order_id (res_order res)) s' = Some (res_order res) \<and>
         order_type (res_order res) = BUY \<and> orderType (res_order res) = MARKET \<and>
         (status (res_order res) = OPEN \<longrightarrow> filled (res_order res) < amount (res_order res))"
proof -
  from orders_POST_ok[OF ok] obtain prc where
    pos: "0 < oreq_amount req" and tx: "orderTx uid req prc s = Some (res, s')" by auto
  note T = orderTx_market[OF tx mk fresh, unfolded buy]
  have le: "sum_list (map snd (fillPlan (oreq_amount req)
              (matchingOrders (oreq_marketId req) (oreq_outcomeId req) BUY s))) \<le> oreq_amount req"
    using pos by (intro fillPlan_total) simp
  have "users s' uid = map_option (\<lambda>u. u\<lparr>balance := balance u +
                   planDelta BUY uid (fillPlan (oreq_amount req)
              (matchingOrders (oreq_marketId req) (oreq_outcomeId req) BUY s)) uid\<rparr>) (users s uid)"
    using T by blast
  then have b: "users s' uid = Some (u\<lparr>balance := balance u -
           sum_list (map (\<lambda>(r, f). f * price r)
             (fillPlan (oreq_amount req)
                (matchingOrders (oreq_marketId req) (oreq_outcomeId req) BUY s)))\<rparr>)"
    unfolding planDelta_taker[OF noself] u by simp
  have id: "order_id (res_order res) = nextId s" using T by simp
  have o': "orders s' = applyFills (fillPlan (oreq_amount req)
              (matchingOrders (oreq_marketId req) (oreq_outcomeId req) BUY s)) (orders s)
              @ [res_order res]" using T by blast
  have "order_id ` set (applyFills (fillPlan (oreq_amount req)
              (matchingOrders (oreq_marketId req) (oreq_outcomeId req) BUY s)) (orders s))
        = order_id ` set (orders s)"
    by (metis applyFills_ids list.set_map)
  moreover have "nextId s \<notin> order_id ` set (orders s)"
    using fresh by (auto simp: list_all_iff)
  ultimately have "list_all (\<lambda>r. \<not> order_id r = nextId s) (applyFills (fillPlan (oreq_amount req)
              (matchingOrders (oreq_marketId req) (oreq_outcomeId req) BUY s)) (orders s))"
    unfolding list_all_iff by (metis imageI)
  then have f: "order_findUnique (order_id (res_order res)) s' = Some (res_order res)"
    unfolding order_findUnique_def o' id
    by (rule find_last_fresh) (simp add: id)
  have ty: "order_type (res_order res) = BUY \<and> orderType (res_order res) = MARKET"
    using T by simp
  have "status (res_order res) = OPEN \<longrightarrow> filled (res_order res) < amount (res_order res)"
    using T le by (auto split: if_splits)
  with b f ty show ?thesis by blast
qed


text \<open>
  Claim C10. Cancelling one's own OPEN BUY order credits \<open>amount - filled\<close> whatever the
  order's \<open>orderType\<close>; placing a LIMIT BUY debits the whole amount; placing a MARKET BUY
  (none of whose matches is an order of the buyer's own) debits only
  \<open>fillAmount * price\<close> for each fill, so that when it is left OPEN and then cancelled the
  buyer ends with the balance after the fills plus a positive refund that was never
  debited. The scenario: user 2 holds 1000, a MARKET BUY of 20 fills 10 at 0.60 and is
  left OPEN (balance 994), and its cancellation credits 10 (balance 1004).
\<close>

theorem cancel_refund_never_reserved:
  "(orders_DELETE (Some uid) oid s = (Inr (), s') \<and> order_findUnique oid s = Some ord \<and>
    order_type ord = BUY \<and> filled ord < amount ord \<and> users s uid = Some u \<longrightarrow>
      users s' uid = Some (u\<lparr>balance := balance u + (amount ord - filled ord)\<rparr>))
   \<and>
   (orders_POST (Some uid) req s = (Inr res, s') \<and> oreq_type req = BUY \<and>
    oreq_orderType req = LIMIT \<and> users s uid = Some u \<longrightarrow>
      users s' uid = Some (u\<lparr>balance := balance u - oreq_amount req\<rparr>))
   \<and>
   (orders_POST (Some uid) req s = (Inr res, s1) \<and> oreq_type req = BUY \<and>
    oreq_orderType req = MARKET \<and> users s uid = Some u \<and>
    list_all (\<lambda>r. order_id r \<noteq> nextId s) (orders s) \<and>
    list_all (\<lambda>(r, f). order_userId r \<noteq> uid)
      (fillPlan (oreq_amount req) (matchingOrders (oreq_marketId req) (oreq_outcomeId req) BUY s)) \<and>
    status (res_order res) = OPEN \<and>
    orders_DELETE (Some uid) (order_id (res_order res)) s1 = (Inr (), s2) \<longrightarrow>
      users s1 uid = Some (u\<lparr>balance := balance u -
         sum_list (map (\<lambda>(r, f). f * price r)
           (fillPlan (oreq_amount req)
              (matchingOrders (oreq_marketId req) (oreq_outcomeId req) BUY s)))\<rparr>) \<and>
      users s2 uid = Some (u\<lparr>balance := balance u -
         sum_list (map (\<lambda>(r, f). f * price r)
           (fillPlan (oreq_amount req)
              (matchingOrders (oreq_marketId req) (oreq_outcomeId req) BUY s)))
         + (amount (res_order res) - filled (res_order res))\<rparr>) \<and>
      0 < amount (res_order res) - filled (res_order res))
   \<and>
   (map_option balance (users bookOneSell 2) = Some 1000 \<and>
    \<not> isl (fst (orders_POST (Some 2) (marketOrder BUY 20) bookOneSell)) \<and>
    map (\<lambda>r. (order_id r, order_userId r, order_type r, orderType r, amount r, filled r, status r))
      (filter (\<lambda>r. order_id r = 15) (orders bookPartialBuy)) = [(15, 2, BUY, MARKET, 20, 10, OPEN)] \<and>
    map_option balance (users bookPartialBuy 2) = Some (1000 - 10 * (3 / 5)) \<and>
    fst (orders_DELETE (Some 2) 15 bookPartialBuy) = Inr () \<and>
    map_option balance (users bookAfterCancel 2) = Some (1000 - 10 * (3 / 5) + (20 - 10)) \<and>
    (1000 - 10 * (3 / 5) :: rat) < 1000 - 10 * (3 / 5) + (20 - 10))"
proof -
  have a: "users s' uid = Some (u\<lparr>balance := balance u + (amount ord - filled ord)\<rparr>)"
    if "orders_DELETE (Some uid) oid s = (Inr (), s')" "order_findUnique oid s = Some ord"
      "order_type ord = BUY" "filled ord < amount ord" "users s uid = Some u"
    for s' ord
    using orders_DELETE_effect[OF that(1,2)] that(3,4,5) by simp
  have b: "users s' uid = Some (u\<lparr>balance := balance u - oreq_amount req\<rparr>)"
    if "orders_POST (Some uid) req s = (Inr res, s')" "oreq_type req = BUY"
      "oreq_orderType req = LIMIT" "users s uid = Some u"
    for s'
  proof -
    from orders_POST_ok[OF that(1)] obtain prc where
      "orderTx uid req prc s = Some (res, s')" by auto
    from orderTx_limit_buy[OF this that(3,2)] that(4) show ?thesis by simp
  qed
  have c: "users s1 uid = Some (u\<lparr>balance := balance u -
         sum_list (map (\<lambda>(r, f). f * price r)
           (fillPlan (oreq_amount req)
              (matchingOrders (oreq_marketId req) (oreq_outcomeId req) BUY s)))\<rparr>) \<and>
      users s2 uid = Some (u\<lparr>balance := balance u -
         sum_list (map (\<lambda>(r, f). f * price r)
           (fillPlan (oreq_amount req)
              (matchingOrders (oreq_marketId req) (oreq_outcomeId req) BUY s)))
         + (amount (res_order res) - filled (res_order res))\<rparr>) \<and>
      0 < amount (res_order res) - filled (res_order res)"
    if "orders_POST (Some uid) req s = (Inr res, s1)" "oreq_type req = BUY"
      "oreq_orderType req = MARKET" "users s uid = Some u"
      "list_all (\<lambda>r. order_id r \<noteq> nextId s) (orders s)"
      "list_all (\<lambda>(r, f). order_userId r \<noteq> uid)
        (fillPlan (oreq_amount req) (matchingOrders (oreq_marketId req) (oreq_outcomeId req) BUY s))"
      "status (res_order res) = OPEN"
      "orders_DELETE (Some uid) (order_id (res_order res)) s1 = (Inr (), s2)"
  proof -
    note D = market_buy_debit[OF that(1,2,3,4,5,6)]
    then have f: "order_findUnique (order_id (res_order res)) s1 = Some (res_order res)"
      and lt: "filled (res_order res) < amount (res_order res)"
      and ty: "order_type (res_order res) = BUY" using that(7) by simp_all
    from orders_DELETE_effect[OF that(8) f] D ty lt show ?thesis by simp
  qed
  have d: "map_option balance (users bookOneSell 2) = Some 1000 \<and>
    \<not> isl (fst (orders_POST (Some 2) (marketOrder BUY 20) bookOneSell)) \<and>
    map (\<lambda>r. (order_id r, order_userId r, order_type r, orderType r, amount r, filled r, status r))
      (filter (\<lambda>r. order_id r = 15) (orders bookPartialBuy)) = [(15, 2, BUY, MARKET, 20, 10, OPEN)] \<and>
    map_option balance (users bookPartialBuy 2) = Some (1000 - 10 * (3 / 5)) \<and>
    fst (orders_DELETE (Some 2) 15 bookPartialBuy) = Inr () \<and>
    map_option balance (users bookAfterCancel 2) = Some (1000 - 10 * (3 / 5) + (20 - 10)) \<and>
    (1000 - 10 * (3 / 5) :: rat) < 1000 - 10 * (3 / 5) + (20 - 10)"
    by code_simp
  show ?thesis using a b c d by blast
qed


theorem cancel_refund_never_reserved_witness:
  "orders_POST (Some 2) (limitOrder BUY 100 (1 / 2)) holder3Large = (Inr limitBuyResult, bookLimitBuy) \<and>
   map_option balance (users holder3Large 2) = Some 1000 \<and>
   map_option balance (users bookLimitBuy 2) = Some (1000 - 100) \<and>
   orders_POST (Some 2) (marketOrder BUY 20) bookOneSell = (Inr partialBuyResult, bookPartialBuy) \<and>
   orders_DELETE (Some 2) 15 bookPartialBuy = (Inr (), bookAfterCancel) \<and>
   map_option balance (users bookOneSell 2) = Some 1000 \<and>
   map_option balance (users bookPartialBuy 2) = Some (1000 - 6) \<and>
   map_option balance (users bookAfterCancel 2) = Some (1000 - 6 + 10)"
proof -
  let ?u = "\<lparr>balance = 1000, isAdmin = False\<rparr>"
  let ?u' = "\<lparr>balance = 994, isAdmin = False\<rparr>"
  let ?ord = "\<lparr>order_id = 15, order_userId = 2, order_marketId = 10, order_outcomeId = 11,
               order_type = BUY, orderType = MARKET, amount = 20, price = 3 / 4, filled = 10,
               status = OPEN\<rparr>"
  let ?lim = "limitOrder BUY 100 (1 / 2)" and ?mkt = "marketOrder BUY 20"
  have "\<not> isl (fst (orders_POST (Some 2) ?lim holder3Large))" by code_simp
  then have "fst (orders_POST (Some 2) ?lim holder3Large) = Inr limitBuyResult"
    unfolding limitBuyResult_def by simp
  then have lim: "orders_POST (Some 2) ?lim holder3Large = (Inr limitBuyResult, bookLimitBuy)"
    by (simp add: bookLimitBuy_def prod_eq_iff)
  have "\<not> isl (fst (orders_POST (Some 2) ?mkt bookOneSell))" by code_simp
  then have "fst (orders_POST (Some 2) ?mkt bookOneSell) = Inr partialBuyResult"
    unfolding partialBuyResult_def by simp
  then have mkt: "orders_POST (Some 2) ?mkt bookOneSell = (Inr partialBuyResult, bookPartialBuy)"
    by (simp add: bookPartialBuy_def prod_eq_iff)
  have "fst (orders_DELETE (Some 2) 15 bookPartialBuy) = Inr ()" by code_simp
  then have del: "orders_DELETE (Some 2) 15 bookPartialBuy = (Inr (), bookAfterCancel)"
    by (simp add: bookAfterCancel_def prod_eq_iff)
  have rq: "oreq_type ?lim = BUY" "oreq_orderType ?lim = LIMIT" "oreq_amount ?lim = 100"
    "oreq_type ?mkt = BUY" "oreq_orderType ?mkt = MARKET" "oreq_amount ?mkt = 20"
    "oreq_marketId ?mkt = 10" "oreq_outcomeId ?mkt = 11"
    by (simp_all add: limitOrder_def marketOrder_def)
  have u0: "users holder3Large 2 = Some ?u" by code_simp
  have u1: "users bookOneSell 2 = Some ?u" by code_simp
  have u2: "users bookPartialBuy 2 = Some ?u'" by code_simp
  have ord: "order_findUnique 15 bookPartialBuy = Some ?ord" by code_simp
  have fresh: "list_all (\<lambda>r. order_id r \<noteq> nextId bookOneSell) (orders bookOneSell)"
    by code_simp
  have plan: "fillPlan 20 (matchingOrders 10 11 BUY bookOneSell) = [(restingSell, 10)]"
    by code_simp
  have noself: "list_all (\<lambda>(r, f). order_userId r \<noteq> (2::nat)) [(restingSell, 10)]"
    by code_simp
  have ro: "res_order partialBuyResult = ?ord" by code_simp
  have cost: "sum_list (map (\<lambda>(r, f). f * price r) [(restingSell, 10 :: rat)]) = 6"
    by code_simp
  from cancel_refund_never_reserved[where uid = 2 and oid = 15 and s = bookPartialBuy
      and s' = bookAfterCancel and ord = ?ord and u = ?u', THEN conjunct1]
  have a: "users bookAfterCancel 2 = Some (?u'\<lparr>balance := 994 + (20 - 10)\<rparr>)"
    using del ord u2 by simp
  from cancel_refund_never_reserved[where uid = 2 and req = ?lim and s = holder3Large
      and s' = bookLimitBuy and res = limitBuyResult and u = ?u,
      THEN conjunct2, THEN conjunct1]
  have b: "users bookLimitBuy 2 = Some (?u\<lparr>balance := 1000 - 100\<rparr>)"
    using lim u0 by (simp add: rq)
  from cancel_refund_never_reserved[where uid = 2 and req = ?mkt and s = bookOneSell
      and ?s1.0 = bookPartialBuy and ?s2.0 = bookAfterCancel and res = partialBuyResult
      and u = ?u, THEN conjunct2, THEN conjunct2, THEN conjunct1]
  have c: "users bookPartialBuy 2 = Some (?u\<lparr>balance := 1000 - 6\<rparr>) \<and>
           users bookAfterCancel 2 = Some (?u\<lparr>balance := 1000 - 6 + (20 - 10)\<rparr>)"
    using mkt del u1 fresh noself by (simp add: rq plan ro restingSell_def)
  show ?thesis using lim mkt del u0 u1 a b c by simp
qed

text \<open>
  Claim C5 at its failing input. User 2's LIMIT BUY of 100 (order 14) has been filled
  for 30 and is OPEN. Cancelled by its owner, the 70 left go to the owner and a second
  cancel fails with \<open>AlreadyClosed\<close>; cancelled by the administrator (user 1), the 70 are
  credited to the administrator, with the ledger row in the administrator's name, and
  the owner's balance is unchanged.
\<close>

theorem administrator_cancel_refunds_caller:
  "map (\<lambda>r. (order_id r, order_userId r, order_type r, orderType r, amount r, filled r, status r))
     (orders bookLimitBuyFilled30)
     = [(14, 2, BUY, LIMIT, 100, 30, OPEN), (15, 3, SELL, MARKET, 30, 30, FILLED)] \<and>
   map_option isAdmin (users bookLimitBuyFilled30 1) = Some True \<and>
   map_option balance (users bookLimitBuyFilled30 1) = Some 1000 \<and>
   map_option balance (users bookLimitBuyFilled30 2) = Some 885 \<and>
   fst (orders_DELETE (Some 2) 14 bookLimitBuyFilled30) = Inr () \<and>
   map_option balance (users bookOwnerCancel 2) = Some (885 + 70) \<and>
   fst (orders_DELETE (Some 2) 14 bookOwnerCancel) = Inl AlreadyClosed \<and>
   fst (orders_DELETE (Some 1) 14 bookLimitBuyFilled30) = Inr () \<and>
   map_option balance (users bookAdminCancel 2) = Some 885 \<and>
   map_option balance (users bookAdminCancel 1) = Some (1000 + 70) \<and>
   last (transactions bookAdminCancel) =
     \<lparr>transaction_userId = 1, transaction_amount = 70,
      transaction_type = ''ORDER_CANCEL_REFUND'', transaction_metadata = None\<rparr>"
  by code_simp

text \<open>
  Claim C8 at its failing input. User 3 holds 10 shares and rests two LIMIT SELL orders
  of 10 each, both accepted because placement checks the holding and reserves nothing;
  user 2's MARKET BUY of 20 fills both, and the seller's holding is decremented twice,
  to -10.
\<close>

theorem resting_sell_fills_go_negative:
  "map (\<lambda>h. (holding_userId h, holding_outcomeId h, quantity h)) (holdings holder3)
     = [(3, 11, 10)] \<and>
   \<not> isl (fst (orders_POST (Some 3) (limitOrder SELL 10 (3 / 5)) holder3)) \<and>
   \<not> isl (fst (orders_POST (Some 3) (limitOrder SELL 10 (7 / 10)) bookOneSell)) \<and>
   \<not> isl (fst (orders_POST (Some 2) (marketOrder BUY 20) bookTwoSells)) \<and>
   map (\<lambda>h. (holding_userId h, holding_outcomeId h, quantity h)) (holdings bookOversold)
     = [(3, 11, - 10), (2, 11, 20)]"
  by code_simp

lemma tradeImpact_frame:
  assumes "tradeImpact market outcome req s = Some s'"
  shows "holdings s' = holdings s \<and> transactions s' = transactions s \<and> users s' = users s \<and>
         orders s' = orders s \<and> trades s' = trades s"
proof -
  from tradeImpact_steps[OF assms] obtain mk :: market where
    r: "redistribute (req_marketId req) (req_outcomeId req)
             (newProbability (req_type req) (probability outcome) (req_amount req)
                (volumeOr1 (volume market)))
             (s\<lparr>markets := (markets s)(req_marketId req \<mapsto>
                     mk\<lparr>volume := volume mk + req_amount req\<rparr>)\<rparr>) = Some s'" by blast
  from redistribute_outcomes[OF r] show ?thesis by (erule_tac ssubst) simp
qed

lemma trades_POST_positions_ok:
  assumes "trades_POST_positions session req s = (Inr (), s')"
  shows "\<exists>uid user market outcome. session = Some uid \<and> users s uid = Some user \<and>
           0 < req_amount req \<and> markets s (req_marketId req) = Some market \<and>
           outcome_findFirst (req_outcomeId req) (req_marketId req) s = Some outcome \<and>
           positionTradeTx uid market outcome req s = Some s'"
  using assms
  by (auto simp: trades_POST_positions_def split: option.splits if_splits)

lemma sell_profit:
  assumes "sharesToSell mode amt p = Some shares"
  shows "sellAmount mode amt p - shares * a = shares * (p - a)"
  using assms
  by (auto simp: sharesToSell_def sellAmount_def algebra_simps split: if_splits)

lemma positionHoldings_sell_yes:
  assumes ph: "positionHoldings uid outcome req s = Some (s2, sellAmt, pl)"
    and sell: "req_type req = SELL" and yes: "req_positionType req = YES"
    and h: "userOutcome_findFirst uid (req_outcomeId req) s = Some h"
  shows "\<exists>shares. sharesToSell (req_isSharesMode req) (req_amount req) (probability outcome)
                     = Some shares \<and>
           0 < quantity h \<and> shares \<le> quantity h \<and>
           holdings s2 =
             (if shares = quantity h
              then filter (\<lambda>x. holding_id x \<noteq> holding_id h) (holdings s)
              else map (\<lambda>x. if holding_id x = holding_id h
                            then x\<lparr>quantity := quantity x - shares\<rparr> else x) (holdings s)) \<and>
           sellAmt = shares * probability outcome \<and>
           pl = shares * (probability outcome - avgPrice h) \<and>
           transactions s2 = transactions s \<and> users s2 = users s"
proof -
  from ph sell yes h obtain shares where
    sh: "sharesToSell (req_isSharesMode req) (req_amount req) (probability outcome) = Some shares"
    and ck: "checkAvailable (Some h) shares = Some h"
    and d: "disposeShares h shares s = Some s2"
    and sa: "sellAmt = sellAmount (req_isSharesMode req) (req_amount req) (probability outcome)"
    and p: "pl = sellAmount (req_isSharesMode req) (req_amount req) (probability outcome)
               - shares * avgPrice h"
    by (auto simp: positionHoldings_def Let_def bind_eq_Some_conv checkAvailable_def
        split: if_splits)
  have q: "0 < quantity h" "shares \<le> quantity h"
    using ck by (auto simp: checkAvailable_def split: if_splits)
  have hs: "holdings s2 =
             (if shares = quantity h
              then filter (\<lambda>x. holding_id x \<noteq> holding_id h) (holdings s)
              else map (\<lambda>x. if holding_id x = holding_id h
                            then x\<lparr>quantity := quantity x - shares\<rparr> else x) (holdings s))
            \<and> transactions s2 = transactions s \<and> users s2 = users s"
    using d q by (auto simp: disposeShares_def userOutcome_delete_Some userOutcome_update_Some
        split: if_splits)
  have "sellAmt = shares * probability outcome"
    using sh sa by (auto simp: sharesToSell_def sellAmount_def split: if_splits)
  with sh q hs p sell_profit[OF sh] show ?thesis by auto
qed


text \<open>
  Selling through the second copy of the trade handler (a YES position) requires a
  positive holding that covers the sale, deletes the row when all of it is sold and
  otherwise decrements the quantity and leaves \<open>avgPrice\<close> as it is, and writes
  \<open>soldQty * (tradePrice - avgPrice)\<close> as the metadata of the ledger row (no metadata
  when that number is 0).
\<close>

lemma positions_sell_yes_disposes:
  assumes ok: "trades_POST_positions (Some uid) req s = (Inr (), s')"
    and sell: "req_type req = SELL" and yes: "req_positionType req = YES"
    and h: "userOutcome_findFirst uid (req_outcomeId req) s = Some h"
    and oc: "outcome_findFirst (req_outcomeId req) (req_marketId req) s = Some oc"
  shows "\<exists>soldQty. sharesToSell (req_isSharesMode req) (req_amount req) (probability oc)
                     = Some soldQty \<and>
           0 < quantity h \<and> soldQty \<le> quantity h \<and>
           holdings s' =
             (if soldQty = quantity h
              then filter (\<lambda>x. holding_id x \<noteq> holding_id h) (holdings s)
              else map (\<lambda>x. if holding_id x = holding_id h
                            then x\<lparr>quantity := quantity x - soldQty\<rparr> else x) (holdings s)) \<and>
           transactions s' = transactions s @
             [\<lparr>transaction_userId = uid, transaction_amount = soldQty * probability oc,
               transaction_type = ''TRADE_SELL'',
               transaction_metadata =
                 (if soldQty * (probability oc - avgPrice h) \<noteq> 0
                  then Some (soldQty * (probability oc - avgPrice h)) else None)\<rparr>]"
proof -
  from trades_POST_positions_ok[OF ok] oc obtain market :: market where
    tx: "positionTradeTx uid market oc req s = Some s'" by auto
  from tx obtain s2 sellAmt pl d s3 where
    ph: "positionHoldings uid oc req (trade_create (tradeRow uid oc req) s) = Some (s2, sellAmt, pl)"
    and l: "tradeLedger uid SELL d sellAmt pl s2 = Some s3"
    and i: "tradeImpact market oc req s3 = Some s'"
    unfolding positionTradeTx_def Let_def by (auto simp: bind_eq_Some_conv sell)
  have h1: "userOutcome_findFirst uid (req_outcomeId req) (trade_create (tradeRow uid oc req) s)
              = Some h"
    using h by (simp add: userOutcome_findFirst_def trade_create_def)
  from positionHoldings_sell_yes[OF ph sell yes h1] obtain soldQty where
    sh: "sharesToSell (req_isSharesMode req) (req_amount req) (probability oc) = Some soldQty"
    and q: "0 < quantity h" "soldQty \<le> quantity h"
    and hs: "holdings s2 =
             (if soldQty = quantity h
              then filter (\<lambda>x. holding_id x \<noteq> holding_id h) (holdings s)
              else map (\<lambda>x. if holding_id x = holding_id h
                            then x\<lparr>quantity := quantity x - soldQty\<rparr> else x) (holdings s))"
    and sa: "sellAmt = soldQty * probability oc"
    and pl: "pl = soldQty * (probability oc - avgPrice h)"
    and t2: "transactions s2 = transactions s"
    by (auto simp: trade_create_def)
  have "holdings s3 = holdings s2 \<and>
        transactions s3 = transactions s2 @ [tradeTransaction SELL uid sellAmt pl]"
    using l by (auto simp: tradeLedger_Some)
  then have "holdings s' = holdings s2 \<and>
        transactions s' = transactions s @ [tradeTransaction SELL uid sellAmt pl]"
    using tradeImpact_frame[OF i] t2 by simp
  then show ?thesis using sh q hs sa pl by (auto simp: tradeTransaction_def)
qed

text \<open>
  Selling through \<open>src/app/api/trades/route.ts\<close> always decrements the row and never
  deletes it.
\<close>

lemma trades_POST_sell_decrements:
  assumes ok: "trades_POST (Some uid) req s = (Inr (), s')"
    and sell: "req_type req = SELL"
    and oc: "outcome_findFirst (req_outcomeId req) (req_marketId req) s = Some oc"
  shows "\<exists>h soldQty. userOutcome_findFirst uid (req_outcomeId req) s = Some h \<and>
           sharesToSell (req_isSharesMode req) (req_amount req) (probability oc) = Some soldQty \<and>
           soldQty \<le> quantity h \<and>
           holdings s' = map (\<lambda>x. if holding_id x = holding_id h
                                  then x\<lparr>quantity := quantity x - soldQty\<rparr> else x) (holdings s)"
proof -
  from trades_POST_ok[OF ok] oc obtain market :: market where
    tx: "tradeTx uid market oc req s = Some s'" by auto
  from tx obtain h s2 pl d ta s3 where
    cs: "checkSell uid oc req s = Some h"
    and th: "tradeHoldings uid oc req (Some h) (trade_create (tradeRow uid oc req) s) = Some (s2, pl)"
    and l: "tradeLedger uid SELL d ta pl s2 = Some s3"
    and i: "tradeImpact market oc req s3 = Some s'"
    unfolding tradeTx_def Let_def by (auto simp: bind_eq_Some_conv sell)
  from cs obtain soldQty where
    f: "userOutcome_findFirst uid (req_outcomeId req) s = Some h"
    and sh: "sharesToSell (req_isSharesMode req) (req_amount req) (probability oc) = Some soldQty"
    and le: "soldQty \<le> quantity h"
    by (auto simp: checkSell_def split: option.splits if_splits)
  have "holdings s2 = map (\<lambda>x. if holding_id x = holding_id h
                                then x\<lparr>quantity := quantity x - soldQty\<rparr> else x) (holdings s)"
    using th sh by (auto simp: tradeHoldings_def Let_def sell bind_eq_Some_conv
        userOutcome_update_Some trade_create_def)
  moreover have "holdings s3 = holdings s2" using l by (auto simp: tradeLedger_Some)
  ultimately show ?thesis using tradeImpact_frame[OF i] f sh le by auto
qed

text \<open>
  Claim C7 at its failing input. User 3 holds 10 shares bought at 0.50, the outcome is
  at 0.75, and all 10 are sold in shares mode. Both copies of the handler write the
  realized profit \<open>10 * (0.75 - 0.50)\<close> as metadata; the second copy deletes the holding,
  \<open>src/app/api/trades/route.ts\<close> keeps the row with quantity 0.
\<close>

theorem full_sell_keeps_zero_row:
  "map (\<lambda>h. (holding_id h, holding_userId h, holding_outcomeId h, quantity h, avgPrice h))
     (holdings holder3) = [(13, 3, 11, 10, 1 / 2)] \<and>
   map_option probability (outcome_findFirst 11 10 holder3) = Some (3 / 4) \<and>
   fst (trades_POST (Some 3) sellAllRequest holder3) = Inr () \<and>
   map (\<lambda>h. (holding_id h, holding_userId h, holding_outcomeId h, quantity h, avgPrice h))
     (holdings holder3SoldAll) = [(13, 3, 11, 0, 1 / 2)] \<and>
   last (transactions holder3SoldAll) =
     \<lparr>transaction_userId = 3, transaction_amount = 10 * (3 / 4),
      transaction_type = ''TRADE_SELL'', transaction_metadata = Some (10 * (3 / 4 - 1 / 2))\<rparr> \<and>
   fst (trades_POST_positions (Some 3) sellAllYesRequest holder3) = Inr () \<and>
   holdings holder3SoldAllYes = [] \<and>
   last (transactions holder3SoldAllYes) =
     \<lparr>transaction_userId = 3, transaction_amount = 10 * (3 / 4),
      transaction_type = ''TRADE_SELL'', transaction_metadata = Some (10 * (3 / 4 - 1 / 2))\<rparr>"
  by code_simp



section \<open>The order table stays well formed\<close>

text \<open>
  Placing an order keeps the order ids distinct and keeps every OPEN order short of its
  amount: a new LIMIT order starts with nothing filled of a positive amount, a MARKET
  order is OPEN only when the fills did not reach its amount, and a resting order that
  a fill completes is marked FILLED. These are the two conditions on the order table
  under which the settlement of a resolved market is stated.
\<close>

lemma matchingOrders_distinct:
  assumes "distinct (map order_id (orders s))"
  shows "distinct (map order_id (matchingOrders m oid t s))"
proof -
  have d: "distinct (map order_id (filter P (orders s)))" for P
    using assms by (simp add: distinct_map_filter)
  have "distinct (map order_id (sort_key k xs)) = distinct (map order_id xs)"
    for k :: "order \<Rightarrow> rat" and xs
    by (simp add: distinct_map)
  then show ?thesis using d by (simp add: matchingOrders_def Let_def)
qed

lemma fillPlan_distinct:
  assumes "distinct (map order_id L)"
  shows "distinct (map (\<lambda>(r, f). order_id r) (fillPlan remaining L))"
  using assms
proof (induction L arbitrary: remaining)
  case Nil
  then show ?case by simp
next
  case (Cons r L)
  have mem: "\<And>rem' x f. (x, f) \<in> set (fillPlan rem' L) \<Longrightarrow> x \<in> set L"
    using fillPlan_members[of L] by (auto simp: list_all_iff)
  from Cons.prems have "order_id r \<notin> order_id ` set L" by simp
  then have "order_id r \<notin> (\<lambda>(r, f). order_id r) ` set (fillPlan rem' L)" for rem'
    using mem by fastforce
  then show ?case using Cons by simp
qed

lemma applyFill_ids: "map order_id (applyFill r f rows) = map order_id rows"
  by (auto simp: applyFill_def comp_def if_distrib cong: if_cong)

lemma applyFills_open_unfilled:
  assumes "distinct (map order_id rows)"
    and "list_all (\<lambda>(r, f). r \<in> set rows \<and> 0 < f \<and> f \<le> amount r - filled r) plan"
    and "distinct (map (\<lambda>(r, f). order_id r) plan)"
    and "list_all (\<lambda>r. status r = OPEN \<longrightarrow> filled r < amount r) rows"
  shows "list_all (\<lambda>r. status r = OPEN \<longrightarrow> filled r < amount r) (applyFills plan rows)"
  using assms
proof (induction plan arbitrary: rows)
  case Nil
  then show ?case by simp
next
  case (Cons p plan)
  obtain r f where p: "p = (r, f)" by (cases p)
  let ?rows = "applyFill r f rows"
  from Cons.prems(2) p have r: "r \<in> set rows" "0 < f" "f \<le> amount r - filled r" by auto
  have same: "x = r" if "x \<in> set rows" "order_id x = order_id r" for x
    using that r(1) Cons.prems(1) by (meson distinct_map inj_onD)
  have d: "distinct (map order_id ?rows)" using Cons.prems(1) by (simp add: applyFill_ids)
  have keep: "x \<in> set ?rows" if "x \<in> set rows" "order_id x \<noteq> order_id r" for x
    using that by (force simp: applyFill_def)
  have m: "list_all (\<lambda>(r, f). r \<in> set ?rows \<and> 0 < f \<and> f \<le> amount r - filled r) plan"
    unfolding list_all_iff
  proof
    fix q assume q: "q \<in> set plan"
    obtain x g where xg: "q = (x, g)" by (cases q)
    from q xg Cons.prems(2) have a: "x \<in> set rows \<and> 0 < g \<and> g \<le> amount x - filled x"
      by (auto simp: list_all_iff)
    from q xg Cons.prems(3) p have "order_id x \<noteq> order_id r" by force
    then show "case q of (r, f) \<Rightarrow> r \<in> set ?rows \<and> 0 < f \<and> f \<le> amount r - filled r"
      using a keep xg by simp
  qed
  have dp: "distinct (map (\<lambda>(r, f). order_id r) plan)" using Cons.prems(3) by simp
  have w: "list_all (\<lambda>r. status r = OPEN \<longrightarrow> filled r < amount r) ?rows"
    unfolding list_all_iff
  proof
    fix y assume "y \<in> set ?rows"
    then obtain x where x: "x \<in> set rows"
      and y: "y = (if order_id x = order_id r
                   then x\<lparr>filled := filled x + f,
                          status := (if amount r - filled r \<le> f then FILLED else OPEN)\<rparr>
                   else x)"
      by (auto simp: applyFill_def)
    show "status y = OPEN \<longrightarrow> filled y < amount y"
    proof (cases "order_id x = order_id r")
      case True
      then have "x = r" using same x by simp
      then show ?thesis using y True by auto
    next
      case False
      then show ?thesis using y x Cons.prems(4) by (auto simp: list_all_iff)
    qed
  qed
  show ?case using Cons.IH[OF d m dp w] p by simp
qed

lemma orders_POST_open_unfilled:
  assumes ok: "orders_POST session req s = (Inr res, s')"
    and dor: "distinct (map order_id (orders s))"
    and fresh: "list_all (\<lambda>r. order_id r \<noteq> nextId s) (orders s)"
    and wf: "list_all (\<lambda>r. status r = OPEN \<longrightarrow> filled r < amount r) (orders s)"
  shows "distinct (map order_id (orders s')) \<and>
         list_all (\<lambda>r. status r = OPEN \<longrightarrow> filled r < amount r) (orders s')"
proof -
  from orders_POST_ok[OF ok] obtain uid prc where
    pos: "0 < oreq_amount req" and tx: "orderTx uid req prc s = Some (res, s')"
    by blast
  have nid: "nextId s \<notin> order_id ` set (orders s)" using fresh by (auto simp: list_all_iff)
  show ?thesis
  proof (cases "oreq_orderType req")
    case LIMIT
    let ?n = "\<lparr>order_id = nextId s, order_userId = uid, order_marketId = oreq_marketId req,
              order_outcomeId = oreq_outcomeId req, order_type = oreq_type req,
              orderType = oreq_orderType req, amount = oreq_amount req, price = prc,
              filled = 0, status = OPEN\<rparr>"
    have "orders s' = orders s @ [?n]"
      using tx LIMIT
      by (auto simp: orderTx_def Let_def bind_eq_Some_conv user_increment_balance_Some
          transaction_create_def split: if_splits)
    then show ?thesis using dor nid wf pos by simp
  next
    case MARKET
    let ?L = "matchingOrders (oreq_marketId req) (oreq_outcomeId req) (oreq_type req) s"
    let ?plan = "fillPlan (oreq_amount req) ?L"
    note E = orderTx_market[OF tx MARKET fresh]
    then have o': "orders s' = applyFills ?plan (orders s) @ [res_order res]" by blast
    have n: "order_id (res_order res) = nextId s \<and>
             (status (res_order res) = OPEN \<longrightarrow> filled (res_order res) < amount (res_order res))"
      using E by auto
    have "list_all (\<lambda>(r, f). r \<in> set ?L \<and> 0 < f \<and> f \<le> amount r - filled r) ?plan"
      by (rule fillPlan_members)
    then have m: "list_all (\<lambda>(r, f). r \<in> set (orders s) \<and> 0 < f \<and> f \<le> amount r - filled r) ?plan"
      by (auto simp: list_all_iff matchingOrders_set)
    have dp: "distinct (map (\<lambda>(r, f). order_id r) ?plan)"
      by (rule fillPlan_distinct[OF matchingOrders_distinct[OF dor]])
    have w: "list_all (\<lambda>r. status r = OPEN \<longrightarrow> filled r < amount r) (applyFills ?plan (orders s))"
      by (rule applyFills_open_unfilled[OF dor m dp wf])
    have "distinct (map order_id (orders s'))"
      using dor nid n by (simp add: o' applyFills_ids)
    then show ?thesis using w n by (simp add: o')
  qed
qed
end
